theory Spec2Isabelle
  imports
    Complex_Main
    "HOL-Library.Sublist"
    "HOL-Library.Multiset"
    "HOL-Library.Char_ord"
    "HOL-Library.List_Lexorder"
begin

section \<open>Simultaneous heating and cooling analyzer\<close>

text \<open>
  A shallow embedding of \<^verbatim>\<open>streamlit_simultaneous.py\<close>. The script reads two sheets of
  a workbook, parses building names out of the column labels, joins the two sheets on the
  timestamp for the selected building, flags the rows where both loads are above a
  threshold, and shows and exports them.

  The script is a chain of pandas and Streamlit calls. Each call is given here as a
  function on an explicit table type, with every exception the call can raise on the way
  as a branch returning an \<open>error\<close>.
\<close>

subsection \<open>Tables\<close>

text \<open>
  A cell of a sheet. \<open>NA\<close> is pandas' missing value (\<open>NaN\<close> for numbers, \<open>NaT\<close> for
  timestamps). \<open>Num\<close> is a float64 read as the real number it denotes: the script only
  compares such numbers with an integer threshold, which is exact. \<open>Stamp t\<close> is an
  instant, \<open>t\<close> nanoseconds after the epoch.

  \<^verbatim>\<open>pd.to_datetime\<close> is a library call whose reading of text is not part of this
  program. A cell of the \<^verbatim>\<open>Timestamp\<close> column is therefore represented by what that call
  makes of it: \<open>Stamp t\<close> for a cell it reads as the instant \<open>t\<close>, and any other
  constructor for a cell it cannot read.
\<close>

datatype cell = NA | Num real | Stamp int | Text string | Flag bool

text \<open>
  A row gives the cell under each column label; a frame is the ordered list of its
  column labels and the list of its rows.
\<close>

type_synonym row = "string \<Rightarrow> cell"

record frame =
  columns :: "string list"
  rows :: "row list"

datatype error = WorksheetNotFound string | KeyError string | TypeError

type_synonym workbook = "string \<rightharpoonup> frame"

text \<open>\<^verbatim>\<open>df[c] = f(df)\<close> for an elementwise \<open>f\<close>: an existing column is overwritten in
  place, a new one is appended as the last column.\<close>

definition set_column :: "string \<Rightarrow> (row \<Rightarrow> cell) \<Rightarrow> frame \<Rightarrow> frame" where
  "set_column c f df =
     \<lparr>columns = (if c \<in> set (columns df) then columns df else columns df @ [c]),
      rows = map (\<lambda>r. r(c := f r)) (rows df)\<rparr>"

text \<open>\<^verbatim>\<open>df[[c1, ..., cn]]\<close>: a KeyError for a label that is not a column (pandas
  names all missing labels in the message; the first one is kept here).\<close>

definition select_columns :: "string list \<Rightarrow> frame \<Rightarrow> error + frame" where
  "select_columns cs df =
     (case filter (\<lambda>c. c \<notin> set (columns df)) cs of
        c # _ \<Rightarrow> Inl (KeyError c)
      | [] \<Rightarrow> Inr \<lparr>columns = cs,
                   rows = map (\<lambda>r c. if c \<in> set cs then r c else NA) (rows df)\<rparr>)"

subsection \<open>Configuration (lines 11 to 14)\<close>

definition CHW_SHEET :: string where
  "CHW_SHEET = ''CHW hourly''"

definition MTHW_SHEET :: string where
  "MTHW_SHEET = ''MTHW hourly''"

subsection \<open>Loading the sheets (lines 21 to 34)\<close>

text \<open>\<^verbatim>\<open>pd.read_excel(DATA_FILE, sheet_name=...)\<close>: a ValueError "Worksheet named ... not
  found" when the workbook has no such sheet.\<close>

definition read_excel :: "workbook \<Rightarrow> string \<Rightarrow> error + frame" where
  "read_excel wb sheet_name =
     (case wb sheet_name of
        None \<Rightarrow> Inl (WorksheetNotFound sheet_name)
      | Some df \<Rightarrow> Inr df)"

text \<open>\<^verbatim>\<open>pd.to_datetime(..., errors="coerce")\<close> on one cell: what cannot be read
  becomes \<open>NaT\<close>.\<close>

fun to_datetime :: "cell \<Rightarrow> cell" where
  "to_datetime (Stamp t) = Stamp t"
| "to_datetime _ = NA"

text \<open>\<^verbatim>\<open>df.dropna(subset=[c])\<close>.\<close>

definition dropna :: "string \<Rightarrow> frame \<Rightarrow> frame" where
  "dropna c df = df\<lparr>rows := filter (\<lambda>r. r c \<noteq> NA) (rows df)\<rparr>"

fun stamp_value :: "cell \<Rightarrow> int" where
  "stamp_value (Stamp t) = t"
| "stamp_value _ = 0"

text \<open>\<^verbatim>\<open>df.sort_values(c)\<close>, ascending, on a timestamp column without missing values
  (the script sorts right after \<open>dropna\<close>). The order pandas gives to rows of equal
  timestamp is not fixed by its default sort; here they keep their relative order, and
  nothing below depends on it.\<close>

definition sort_values :: "string \<Rightarrow> frame \<Rightarrow> frame" where
  "sort_values c df = df\<lparr>rows := sort_key (\<lambda>r. stamp_value (r c)) (rows df)\<rparr>"

text \<open>The body of the loop at lines 27 to 30, for one sheet. \<^verbatim>\<open>df["Timestamp"]\<close> raises
  a KeyError when the sheet has no such column.\<close>

definition fix_timestamp :: "frame \<Rightarrow> error + frame" where
  "fix_timestamp df =
     (if ''Timestamp'' \<notin> set (columns df) then Inl (KeyError ''Timestamp'')
      else Inr (sort_values ''datetime''
                 (dropna ''datetime''
                   (set_column ''datetime'' (\<lambda>r. to_datetime (r ''Timestamp'')) df))))"

text \<open>\<open>load_data\<close>: both sheets are read first, then the loop runs over the CHW sheet and
  then over the MTHW sheet.\<close>

definition load_data :: "workbook \<Rightarrow> error + frame \<times> frame" where
  "load_data wb =
     (case read_excel wb CHW_SHEET of
        Inl e \<Rightarrow> Inl e
      | Inr chw_df \<Rightarrow>
          (case read_excel wb MTHW_SHEET of
             Inl e \<Rightarrow> Inl e
           | Inr mthw_df \<Rightarrow>
               (case fix_timestamp chw_df of
                  Inl e \<Rightarrow> Inl e
                | Inr chw_df' \<Rightarrow>
                    (case fix_timestamp mthw_df of
                       Inl e \<Rightarrow> Inl e
                     | Inr mthw_df' \<Rightarrow> Inr (chw_df', mthw_df')))))"

subsection \<open>Building names from the column labels (lines 40 to 53)\<close>

text \<open>
  The pattern is \<^verbatim>\<open>(.+?) SUFFIX \(kbtuh\)\<close> with the suffix pasted in unescaped, and it
  is applied with \<^verbatim>\<open>re.match\<close>, which anchors the pattern at the start of the label only.
  The model reads the suffix as literal text, which is what the regular expression does
  for a suffix without any of the special characters below; both suffixes the script
  uses, \<^verbatim>\<open>CHW\<close> and \<^verbatim>\<open>MTHW\<close>, are such. Statements about an arbitrary suffix carry
  \<open>regex_literal\<close> as a hypothesis.
\<close>

definition regex_special :: "char list" where
  "regex_special = CHR 0x5C # ''.^$*+?{}[]|()''"

definition regex_literal :: "string \<Rightarrow> bool" where
  "regex_literal s = list_all (\<lambda>c. c \<notin> set regex_special) s"

text \<open>
  The lazy group \<^verbatim>\<open>(.+?)\<close> followed by literal text: the group has already taken \<open>grp\<close>;
  it stops as soon as the rest of the label starts with the literal text, and otherwise
  takes one more character, which must not be a line feed (\<^verbatim>\<open>.\<close> does not match it).
  Nothing is required of what follows the literal text.
\<close>

fun lazy_group :: "string \<Rightarrow> string \<Rightarrow> string \<Rightarrow> string option" where
  "lazy_group lit grp [] = (if lit = [] then Some grp else None)"
| "lazy_group lit grp (c # cs) =
     (if prefix lit (c # cs) then Some grp
      else if c = CHR 0x0A then None
      else lazy_group lit (grp @ [c]) cs)"

text \<open>\<^verbatim>\<open>re.match(pattern, col)\<close> and, on a match, \<^verbatim>\<open>m.group(1)\<close>. The group takes at
  least one character.\<close>

definition re_match_group :: "string \<Rightarrow> string \<Rightarrow> string option" where
  "re_match_group sfx col =
     (case col of
        [] \<Rightarrow> None
      | c # cs \<Rightarrow>
          if c = CHR 0x0A then None
          else lazy_group ('' '' @ sfx @ '' (kbtuh)'') [c] cs)"

fun extract_building_names :: "string list \<Rightarrow> string \<Rightarrow> string list" where
  "extract_building_names [] sfx = []"
| "extract_building_names (col # cols) sfx =
     (case re_match_group sfx col of
        Some name \<Rightarrow> name # extract_building_names cols sfx
      | None \<Rightarrow> extract_building_names cols sfx)"

text \<open>Lines 49 to 53: \<^verbatim>\<open>sorted(list(set(chw_buildings) & set(mthw_buildings)))\<close>. Python
  orders strings by code point, character by character, a proper prefix first; that is
  the order of \<open>string\<close> here.\<close>

definition common_buildings :: "string list \<Rightarrow> string list \<Rightarrow> string list" where
  "common_buildings chw_columns mthw_columns =
     sorted_list_of_set
       (set (extract_building_names chw_columns ''CHW'')
        \<inter> set (extract_building_names mthw_columns ''MTHW''))"

subsection \<open>Join and threshold flags (lines 81 to 100)\<close>

definition chw_col :: "string \<Rightarrow> string" where
  "chw_col building = building @ '' CHW (kbtuh)''"

definition mthw_col :: "string \<Rightarrow> string" where
  "mthw_col building = building @ '' MTHW (kbtuh)''"

text \<open>
  \<^verbatim>\<open>pd.merge(left, right, on=key, how="inner")\<close>: one row for every pair of a left and a
  right row with equal key, in the order of the left rows and, for one left row, of the
  right rows. The columns are the left ones followed by the right ones without the key.
  pandas renames value columns that carry the same label on both sides; the two value
  columns of the script never do (\<open>chw_col b \<noteq> mthw_col b\<close>), so that is left out.
\<close>

definition merge_inner :: "string \<Rightarrow> frame \<Rightarrow> frame \<Rightarrow> error + frame" where
  "merge_inner key left right =
     (if key \<notin> set (columns left) \<or> key \<notin> set (columns right) then Inl (KeyError key)
      else Inr \<lparr>columns = columns left @ filter (\<lambda>c. c \<noteq> key) (columns right),
                rows = concat (map (\<lambda>l. map (\<lambda>r c. if c \<in> set (columns left) then l c else r c)
                                            (filter (\<lambda>r. r key = l key) (rows right)))
                                   (rows left))\<rparr>)"

text \<open>\<^verbatim>\<open>df.rename(columns=m)\<close>: a label that is a key of \<open>m\<close> is replaced.\<close>

definition rename_columns :: "(string \<times> string) list \<Rightarrow> frame \<Rightarrow> frame" where
  "rename_columns m df =
     (let new = (\<lambda>c. case map_of m c of Some c' \<Rightarrow> c' | None \<Rightarrow> c)
      in \<lparr>columns = map new (columns df),
          rows = map (\<lambda>r c'. case find (\<lambda>c. new c = c') (columns df) of
                                Some c \<Rightarrow> r c
                              | None \<Rightarrow> NA)
                     (rows df)\<rparr>)"

text \<open>Lines 81 to 94.\<close>

definition join_building :: "frame \<Rightarrow> frame \<Rightarrow> string \<Rightarrow> error + frame" where
  "join_building chw_df mthw_df building =
     (case select_columns [''datetime'', chw_col building] chw_df of
        Inl e \<Rightarrow> Inl e
      | Inr left \<Rightarrow>
          (case select_columns [''datetime'', mthw_col building] mthw_df of
             Inl e \<Rightarrow> Inl e
           | Inr right \<Rightarrow>
               (case merge_inner ''datetime'' left right of
                  Inl e \<Rightarrow> Inl e
                | Inr df \<Rightarrow>
                    Inr (rename_columns
                          [(chw_col building, ''CHW''), (mthw_col building, ''MTHW'')] df))))"

text \<open>
  \<^verbatim>\<open>df[src] > threshold\<close>. A missing value compares as False, a Boolean as 0 or 1; a
  column holding text or timestamps makes the comparison raise a TypeError.
\<close>

fun comparable :: "cell \<Rightarrow> bool" where
  "comparable (Text _) = False"
| "comparable (Stamp _) = False"
| "comparable _ = True"

fun above :: "cell \<Rightarrow> int \<Rightarrow> bool" where
  "above (Num x) threshold = (x > real_of_int threshold)"
| "above (Flag b) threshold = ((if b then 1 else 0) > threshold)"
| "above _ threshold = False"

definition flag_above :: "string \<Rightarrow> string \<Rightarrow> int \<Rightarrow> frame \<Rightarrow> error + frame" where
  "flag_above dst src threshold df =
     (if src \<notin> set (columns df) then Inl (KeyError src)
      else if list_ex (\<lambda>r. \<not> comparable (r src)) (rows df) then Inl TypeError
      else Inr (set_column dst (\<lambda>r. Flag (above (r src) threshold)) df))"

text \<open>\<^verbatim>\<open>df[df[c]]\<close>: the rows whose Boolean cell under \<open>c\<close> is True.\<close>

definition boolean_mask :: "string \<Rightarrow> frame \<Rightarrow> frame" where
  "boolean_mask c df = df\<lparr>rows := filter (\<lambda>r. r c = Flag True) (rows df)\<rparr>"

text \<open>Lines 81 to 100: the joined frame \<open>df\<close> with its three Boolean columns, and
  \<open>simul_df\<close>.\<close>

definition analyse :: "frame \<Rightarrow> frame \<Rightarrow> string \<Rightarrow> int \<Rightarrow> error + frame \<times> frame" where
  "analyse chw_df mthw_df building threshold =
     (case join_building chw_df mthw_df building of
        Inl e \<Rightarrow> Inl e
      | Inr df0 \<Rightarrow>
          (case flag_above ''CHW_on'' ''CHW'' threshold df0 of
             Inl e \<Rightarrow> Inl e
           | Inr df1 \<Rightarrow>
               (case flag_above ''MTHW_on'' ''MTHW'' threshold df1 of
                  Inl e \<Rightarrow> Inl e
                | Inr df2 \<Rightarrow>
                    (let df = set_column ''simul''
                                (\<lambda>r. Flag (r ''CHW_on'' = Flag True \<and> r ''MTHW_on'' = Flag True))
                                df2
                     in Inr (df, boolean_mask ''simul'' df)))))"

subsection \<open>What the user sees (lines 16, 55 to 76, 105 to 159)\<close>

text \<open>\<^verbatim>\<open>str.replace(old, new)\<close> for a non-empty \<open>old\<close>, left to right; for an empty
  \<open>old\<close> Python puts \<open>new\<close> before every character and at the end.\<close>

function replace :: "string \<Rightarrow> string \<Rightarrow> string \<Rightarrow> string" where
  "replace old new s =
     (if old = [] then new @ concat (map (\<lambda>c. c # new) s)
      else if s = [] then []
      else if prefix old s then new @ replace old new (drop (length old) s)
      else hd s # replace old new (tl s))"
  by pat_completeness auto
termination
  by (relation "measure (\<lambda>(old, new, s). length s)") auto

declare replace.simps [simp del]

definition out_file :: "string \<Rightarrow> string" where
  "out_file building = ''simultaneous_'' @ replace '' '' ''_'' building @ ''.csv''"

text \<open>Decimal text of an integer, as an f-string writes it.\<close>

function str_nat :: "nat \<Rightarrow> string" where
  "str_nat n =
     (if n < 10 then [char_of (48 + n)]
      else str_nat (n div 10) @ [char_of (48 + n mod 10)])"
  by pat_completeness auto
termination
  by (relation "measure id") auto

declare str_nat.simps [simp del]

definition str_int :: "int \<Rightarrow> string" where
  "str_int i = (if i < 0 then CHR ''-'' # str_nat (nat (- i)) else str_nat (nat i))"

text \<open>
  \<^verbatim>\<open>df.to_csv(index=False)\<close>: a header line with the column labels, then one line per
  row with the cells in the order of the columns. How pandas prints a number or an
  instant is not modelled: a line is kept as the list of its cells.
\<close>

record csv =
  header :: "string list"
  body :: "cell list list"

definition to_csv :: "frame \<Rightarrow> csv" where
  "to_csv df = \<lparr>header = columns df, body = map (\<lambda>r. map r (columns df)) (rows df)\<rparr>"

text \<open>The elements the script puts on the page, in order. A plot is kept as its
  title.\<close>

datatype ui =
    Title string
  | Subheader string
  | Selectbox string "string list"
  | Success string
  | Info string
  | NumberInput string
  | Write string
  | Dataframe frame
  | Pyplot string
  | DownloadButton string csv string

text \<open>How a run of the script ends: it reaches the last line, it calls
  \<^verbatim>\<open>st.stop()\<close>, or an exception that nothing catches ends it.\<close>

datatype outcome = Finished | Stopped | Raised error

text \<open>\<^verbatim>\<open>st.selectbox\<close>: the option the user picked, the first one by default, and None
  when there are no options.\<close>

definition selectbox :: "string list \<Rightarrow> nat \<Rightarrow> string option" where
  "selectbox opts pick =
     (if opts = [] then None
      else Some (opts ! (if pick < length opts then pick else 0)))"

definition em_dash :: string where
  "em_dash = [CHR 0xE2, CHR 0x80, CHR 0x94]"

text \<open>Lines 105 to 159, given the two frames of the analysis.\<close>

definition present :: "string \<Rightarrow> int \<Rightarrow> frame \<Rightarrow> frame \<Rightarrow> ui list \<times> outcome" where
  "present building threshold df simul_df =
     (let out3 = [Subheader ''Simultaneous Heating + Cooling Summary'',
                  Write (''**Total hours detected:** '' @ str_nat (length (rows simul_df)))]
      in case select_columns [''datetime'', ''CHW'', ''MTHW''] simul_df of
           Inl e \<Rightarrow> (out3, Raised e)
         | Inr shown \<Rightarrow>
             (out3 @
              [Dataframe shown,
               Pyplot (building @ '' '' @ em_dash @ '' CHW Load''),
               Pyplot (building @ '' '' @ em_dash @ '' MTHW Load''),
               Pyplot (building @ '' '' @ em_dash @ '' Simultaneous Heating + Cooling''),
               Success (''Saved output file: **'' @ out_file building @ ''**''),
               DownloadButton ''Download CSV'' (to_csv simul_df) (out_file building)],
              Finished))"

text \<open>
  The whole script. \<open>pick\<close> is the position the user chose in the building selector and
  \<open>threshold\<close> the value of the number input, an integer that the widget keeps between
  0 and 5000. The result is what was put on the page and how the run ended.
\<close>

definition run_app :: "workbook \<Rightarrow> nat \<Rightarrow> int \<Rightarrow> ui list \<times> outcome" where
  "run_app wb pick threshold =
     (let out0 = [Title ''Simultaneous Heating + Cooling Analyzer'']
      in case load_data wb of
           Inl e \<Rightarrow> (out0, Raised e)
         | Inr (chw_df, mthw_df) \<Rightarrow>
             (let common = common_buildings (columns chw_df) (columns mthw_df);
                  out1 = out0 @ [Subheader ''Select Building'',
                                 Selectbox ''Choose a building:'' common]
              in case selectbox common pick of
                   None \<Rightarrow> (out1, Stopped)
                 | Some building \<Rightarrow>
                     if building = [] then (out1, Stopped)
                     else
                       (let out2 = out1 @
                              [Success (''Selected Building: **'' @ building @ ''**''),
                               Subheader ''Threshold Adjustment'',
                               NumberInput
                                 ''Enter the kBTU/h threshold for determining system 'on' status:'',
                               Info (''Using threshold: **'' @ str_int threshold @ '' kBTU/h**'')]
                        in case analyse chw_df mthw_df building threshold of
                             Inl e \<Rightarrow> (out2, Raised e)
                           | Inr (df, simul_df) \<Rightarrow>
                               (case present building threshold df simul_df of
                                  (out3, res) \<Rightarrow> (out2 @ out3, res)))))"

subsection \<open>Observations on frames and pages\<close>

text \<open>The \<open>datetime\<close> column of a frame, row by row.\<close>

definition datetime_column :: "frame \<Rightarrow> cell list" where
  "datetime_column df = map (\<lambda>r. r ''datetime'') (rows df)"

text \<open>The number of rows of the joined frame, when the join returns one.\<close>

definition joined_count :: "frame \<Rightarrow> frame \<Rightarrow> string \<Rightarrow> nat option" where
  "joined_count chw_df mthw_df building =
     (case join_building chw_df mthw_df building of
        Inl e \<Rightarrow> None
      | Inr df \<Rightarrow> Some (length (rows df)))"

text \<open>The downloads a page offers: the data and the file name of each download button.\<close>

fun downloads :: "ui list \<Rightarrow> (csv \<times> string) list" where
  "downloads [] = []"
| "downloads (DownloadButton label data file_name # out) = (data, file_name) # downloads out"
| "downloads (_ # out) = downloads out"

text \<open>The elements that tell the user something in words: \<^verbatim>\<open>st.success\<close>,
  \<^verbatim>\<open>st.info\<close> and \<^verbatim>\<open>st.write\<close>. The script calls no other such function.\<close>

fun is_message :: "ui \<Rightarrow> bool" where
  "is_message (Success _) = True"
| "is_message (Info _) = True"
| "is_message (Write _) = True"
| "is_message _ = False"

subsection \<open>The joined frame in closed form\<close>

text \<open>The joined and renamed row made of a row \<open>l\<close> of the CHW frame and a row \<open>r\<close> of
  the MTHW frame, for the building \<open>b\<close>.\<close>

definition pair_row :: "string \<Rightarrow> row \<Rightarrow> row \<Rightarrow> row" where
  "pair_row b l r =
     (\<lambda>c. if c = ''datetime'' then l ''datetime''
          else if c = ''CHW'' then l (chw_col b)
          else if c = ''MTHW'' then r (mthw_col b)
          else NA)"

text \<open>The rows of the joined frame, written out.\<close>

definition join_rows :: "frame \<Rightarrow> frame \<Rightarrow> string \<Rightarrow> row list" where
  "join_rows chw_df mthw_df b =
     concat (map (\<lambda>l. map (pair_row b l)
                         (filter (\<lambda>r. r ''datetime'' = l ''datetime'') (rows mthw_df)))
                 (rows chw_df))"

text \<open>Both frames have the key column and the value column of the building.\<close>

definition has_columns :: "frame \<Rightarrow> frame \<Rightarrow> string \<Rightarrow> bool" where
  "has_columns chw_df mthw_df b =
     (''datetime'' \<in> set (columns chw_df) \<and> chw_col b \<in> set (columns chw_df) \<and>
      ''datetime'' \<in> set (columns mthw_df) \<and> mthw_col b \<in> set (columns mthw_df))"

text \<open>A joined row with its three Boolean cells.\<close>

definition flagged :: "int \<Rightarrow> row \<Rightarrow> row" where
  "flagged threshold r =
     r(''CHW_on'' := Flag (above (r ''CHW'') threshold),
       ''MTHW_on'' := Flag (above (r ''MTHW'') threshold),
       ''simul'' := Flag (above (r ''CHW'') threshold \<and> above (r ''MTHW'') threshold))"

text \<open>The columns of the joined frame once the three Boolean columns are added.\<close>

definition flag_columns :: "string list" where
  "flag_columns = [''datetime'', ''CHW'', ''MTHW'', ''CHW_on'', ''MTHW_on'', ''simul'']"

subsection \<open>Sample workbooks\<close>

text \<open>A row written as a list of labelled cells; every other cell is missing.\<close>

definition row_of :: "(string \<times> cell) list \<Rightarrow> row" where
  "row_of al = (\<lambda>c. case map_of al c of Some v \<Rightarrow> v | None \<Rightarrow> NA)"

text \<open>Two sample sheets as read from the workbook (unsorted, one row with a timestamp
  that cannot be read), and the frames \<open>load_data\<close> makes of them.\<close>

definition ex_chw_sheet :: frame where
  "ex_chw_sheet =
     \<lparr>columns = [''Timestamp'', ''Library CHW (kbtuh)'', ''North Hall CHW (kbtuh)'',
                 ''Annex CHW (kbtuh)''],
      rows = [row_of [(''Timestamp'', Stamp 3), (''Library CHW (kbtuh)'', Num 700),
                      (''Annex CHW (kbtuh)'', Num 10)],
              row_of [(''Timestamp'', Text ''n/a''), (''Library CHW (kbtuh)'', Num 900),
                      (''North Hall CHW (kbtuh)'', Num 2000), (''Annex CHW (kbtuh)'', Num 20)],
              row_of [(''Timestamp'', Stamp 1), (''Library CHW (kbtuh)'', Num 750),
                      (''North Hall CHW (kbtuh)'', Num 1200), (''Annex CHW (kbtuh)'', Num 30)],
              row_of [(''Timestamp'', Stamp 2), (''Library CHW (kbtuh)'', Num 750),
                      (''North Hall CHW (kbtuh)'', Num 100)]]\<rparr>"

definition ex_mthw_sheet :: frame where
  "ex_mthw_sheet =
     \<lparr>columns = [''Timestamp'', ''North Hall MTHW (kbtuh)'', ''Library MTHW (kbtuh)''],
      rows = [row_of [(''Timestamp'', Stamp 1), (''North Hall MTHW (kbtuh)'', Num 900),
                      (''Library MTHW (kbtuh)'', Num 800)],
              row_of [(''Timestamp'', Stamp 2), (''North Hall MTHW (kbtuh)'', Num 950),
                      (''Library MTHW (kbtuh)'', Num 650)],
              row_of [(''Timestamp'', Stamp 3), (''North Hall MTHW (kbtuh)'', Num 710),
                      (''Library MTHW (kbtuh)'', Num 800)],
              row_of [(''Timestamp'', Stamp 4), (''North Hall MTHW (kbtuh)'', Num 5),
                      (''Library MTHW (kbtuh)'', Num 900)]]\<rparr>"

definition ex_workbook :: workbook where
  "ex_workbook = [CHW_SHEET \<mapsto> ex_chw_sheet, MTHW_SHEET \<mapsto> ex_mthw_sheet]"

definition ex_chw_df :: frame where
  "ex_chw_df =
     \<lparr>columns = [''Timestamp'', ''Library CHW (kbtuh)'', ''North Hall CHW (kbtuh)'',
                 ''Annex CHW (kbtuh)'', ''datetime''],
      rows = [row_of [(''Timestamp'', Stamp 1), (''Library CHW (kbtuh)'', Num 750),
                      (''North Hall CHW (kbtuh)'', Num 1200), (''Annex CHW (kbtuh)'', Num 30),
                      (''datetime'', Stamp 1)],
              row_of [(''Timestamp'', Stamp 2), (''Library CHW (kbtuh)'', Num 750),
                      (''North Hall CHW (kbtuh)'', Num 100), (''datetime'', Stamp 2)],
              row_of [(''Timestamp'', Stamp 3), (''Library CHW (kbtuh)'', Num 700),
                      (''Annex CHW (kbtuh)'', Num 10), (''datetime'', Stamp 3)]]\<rparr>"

definition ex_mthw_df :: frame where
  "ex_mthw_df =
     \<lparr>columns = [''Timestamp'', ''North Hall MTHW (kbtuh)'', ''Library MTHW (kbtuh)'',
                 ''datetime''],
      rows = [row_of [(''Timestamp'', Stamp 1), (''North Hall MTHW (kbtuh)'', Num 900),
                      (''Library MTHW (kbtuh)'', Num 800), (''datetime'', Stamp 1)],
              row_of [(''Timestamp'', Stamp 2), (''North Hall MTHW (kbtuh)'', Num 950),
                      (''Library MTHW (kbtuh)'', Num 650), (''datetime'', Stamp 2)],
              row_of [(''Timestamp'', Stamp 3), (''North Hall MTHW (kbtuh)'', Num 710),
                      (''Library MTHW (kbtuh)'', Num 800), (''datetime'', Stamp 3)],
              row_of [(''Timestamp'', Stamp 4), (''North Hall MTHW (kbtuh)'', Num 5),
                      (''Library MTHW (kbtuh)'', Num 900), (''datetime'', Stamp 4)]]\<rparr>"

text \<open>A workbook whose sheets each hold the same instant twice, and the frames
  \<open>load_data\<close> makes of them.\<close>

definition dup_chw_sheet :: frame where
  "dup_chw_sheet =
     \<lparr>columns = [''Timestamp'', ''Library CHW (kbtuh)''],
      rows = [row_of [(''Timestamp'', Stamp 1), (''Library CHW (kbtuh)'', Num 750)],
              row_of [(''Timestamp'', Stamp 1), (''Library CHW (kbtuh)'', Num 760)]]\<rparr>"

definition dup_mthw_sheet :: frame where
  "dup_mthw_sheet =
     \<lparr>columns = [''Timestamp'', ''Library MTHW (kbtuh)''],
      rows = [row_of [(''Timestamp'', Stamp 1), (''Library MTHW (kbtuh)'', Num 800)],
              row_of [(''Timestamp'', Stamp 1), (''Library MTHW (kbtuh)'', Num 810)]]\<rparr>"

definition dup_workbook :: workbook where
  "dup_workbook = [CHW_SHEET \<mapsto> dup_chw_sheet, MTHW_SHEET \<mapsto> dup_mthw_sheet]"

definition dup_chw_df :: frame where
  "dup_chw_df =
     \<lparr>columns = [''Timestamp'', ''Library CHW (kbtuh)'', ''datetime''],
      rows = [row_of [(''Timestamp'', Stamp 1), (''Library CHW (kbtuh)'', Num 750),
                      (''datetime'', Stamp 1)],
              row_of [(''Timestamp'', Stamp 1), (''Library CHW (kbtuh)'', Num 760),
                      (''datetime'', Stamp 1)]]\<rparr>"

definition dup_mthw_df :: frame where
  "dup_mthw_df =
     \<lparr>columns = [''Timestamp'', ''Library MTHW (kbtuh)'', ''datetime''],
      rows = [row_of [(''Timestamp'', Stamp 1), (''Library MTHW (kbtuh)'', Num 800),
                      (''datetime'', Stamp 1)],
              row_of [(''Timestamp'', Stamp 1), (''Library MTHW (kbtuh)'', Num 810),
                      (''datetime'', Stamp 1)]]\<rparr>"

text \<open>A workbook without the MTHW sheet, and one whose MTHW sheet has no \<open>Timestamp\<close>
  column.\<close>

definition no_mthw_workbook :: workbook where
  "no_mthw_workbook = [CHW_SHEET \<mapsto> ex_chw_sheet]"

definition no_timestamp_workbook :: workbook where
  "no_timestamp_workbook =
     [CHW_SHEET \<mapsto> ex_chw_sheet,
      MTHW_SHEET \<mapsto> \<lparr>columns = [''Time'', ''Library MTHW (kbtuh)''], rows = []\<rparr>]"

text \<open>A workbook whose CHW column carries text after \<^verbatim>\<open>(kbtuh)\<close>.\<close>

definition trailing_workbook :: workbook where
  "trailing_workbook =
     [CHW_SHEET \<mapsto>
        \<lparr>columns = [''Timestamp'', ''Library CHW (kbtuh) old''],
         rows = [row_of [(''Timestamp'', Stamp 1), (''Library CHW (kbtuh) old'', Num 750)]]\<rparr>,
      MTHW_SHEET \<mapsto>
        \<lparr>columns = [''Timestamp'', ''Library MTHW (kbtuh)''],
         rows = [row_of [(''Timestamp'', Stamp 1), (''Library MTHW (kbtuh)'', Num 800)]]\<rparr>]"

text \<open>A workbook whose two sheets have no building in common.\<close>

definition nocommon_workbook :: workbook where
  "nocommon_workbook =
     [CHW_SHEET \<mapsto>
        \<lparr>columns = [''Timestamp'', ''Annex CHW (kbtuh)''],
         rows = [row_of [(''Timestamp'', Stamp 1), (''Annex CHW (kbtuh)'', Num 750)]]\<rparr>,
      MTHW_SHEET \<mapsto>
        \<lparr>columns = [''Timestamp'', ''Library MTHW (kbtuh)''],
         rows = [row_of [(''Timestamp'', Stamp 1), (''Library MTHW (kbtuh)'', Num 800)]]\<rparr>]"

section \<open>Properties\<close>

subsection \<open>The join and the analysis in closed form\<close>

lemma chw_col_neq: "last x \<noteq> CHR '')'' \<Longrightarrow> chw_col b \<noteq> x \<and> x \<noteq> chw_col b"
  by (auto simp: chw_col_def)

lemma mthw_col_neq: "last x \<noteq> CHR '')'' \<Longrightarrow> mthw_col b \<noteq> x \<and> x \<noteq> mthw_col b"
  by (auto simp: mthw_col_def)

lemma col_neq [simp]:
  "chw_col b \<noteq> mthw_col b" "mthw_col b \<noteq> chw_col b"
  "chw_col b \<noteq> ''datetime''" "mthw_col b \<noteq> ''datetime''"
  "''datetime'' \<noteq> chw_col b" "''datetime'' \<noteq> mthw_col b"
  "chw_col b \<noteq> ''CHW''" "mthw_col b \<noteq> ''CHW''"
  "chw_col b \<noteq> ''MTHW''" "mthw_col b \<noteq> ''MTHW''"
  "''CHW'' \<noteq> chw_col b" "''CHW'' \<noteq> mthw_col b"
  "''MTHW'' \<noteq> chw_col b" "''MTHW'' \<noteq> mthw_col b"
  using chw_col_neq[of "''datetime''" b] mthw_col_neq[of "''datetime''" b]
    chw_col_neq[of "''CHW''" b] mthw_col_neq[of "''CHW''" b]
    chw_col_neq[of "''MTHW''" b] mthw_col_neq[of "''MTHW''" b]
  by (simp_all add: chw_col_def mthw_col_def)

lemma select_columns_pair:
  "select_columns [k, c] df = Inr f \<longleftrightarrow>
     k \<in> set (columns df) \<and> c \<in> set (columns df) \<and>
     f = \<lparr>columns = [k, c], rows = map (\<lambda>r x. if x = k \<or> x = c then r x else NA) (rows df)\<rparr>"
  by (auto simp: select_columns_def)

lemma join_building_Inr:
  assumes "join_building chw mthw b = Inr df"
  shows "columns df = [''datetime'', ''CHW'', ''MTHW'']"
    and "rows df = concat (map (\<lambda>l. map (pair_row b l)
                 (filter (\<lambda>r. r ''datetime'' = l ''datetime'') (rows mthw))) (rows chw))"
    and "''datetime'' \<in> set (columns chw)" and "chw_col b \<in> set (columns chw)"
    and "''datetime'' \<in> set (columns mthw)" and "mthw_col b \<in> set (columns mthw)"
proof -
  obtain left right m where
    l: "select_columns [''datetime'', chw_col b] chw = Inr left" and
    r: "select_columns [''datetime'', mthw_col b] mthw = Inr right" and
    m: "merge_inner ''datetime'' left right = Inr m" and
    d: "df = rename_columns [(chw_col b, ''CHW''), (mthw_col b, ''MTHW'')] m"
    using assms by (auto simp: join_building_def split: sum.splits)
  from l show "''datetime'' \<in> set (columns chw)" "chw_col b \<in> set (columns chw)"
    by (simp_all add: select_columns_pair)
  from r show "''datetime'' \<in> set (columns mthw)" "mthw_col b \<in> set (columns mthw)"
    by (simp_all add: select_columns_pair)
  have cl: "columns left = [''datetime'', chw_col b]"
    and rl: "rows left = map (\<lambda>r x. if x = ''datetime'' \<or> x = chw_col b then r x else NA) (rows chw)"
    using l by (simp_all add: select_columns_pair)
  have cr: "columns right = [''datetime'', mthw_col b]"
    and rr: "rows right = map (\<lambda>r x. if x = ''datetime'' \<or> x = mthw_col b then r x else NA) (rows mthw)"
    using r by (simp_all add: select_columns_pair)
  have cm: "columns m = [''datetime'', chw_col b, mthw_col b]"
    using m by (auto simp add: merge_inner_def cl cr split: if_splits)
  have rm: "rows m = concat (map (\<lambda>l. map (\<lambda>r c. if c = ''datetime'' \<or> c = chw_col b then l c else r c)
                                            (filter (\<lambda>r. r ''datetime'' = l ''datetime'') (rows right)))
                                   (rows left))"
    using m by (auto simp add: merge_inner_def cl cr split: if_splits)
  show "columns df = [''datetime'', ''CHW'', ''MTHW'']"
    by (simp add: d rename_columns_def cm)
  show "rows df = concat (map (\<lambda>l. map (pair_row b l)
                 (filter (\<lambda>r. r ''datetime'' = l ''datetime'') (rows mthw))) (rows chw))"
    unfolding d rename_columns_def Let_def cm rm rl rr
    by (simp add: map_concat filter_map comp_def)
       (auto simp: pair_row_def fun_eq_iff intro!: arg_cong[where f=concat])
qed

lemma join_building_total:
  assumes "''datetime'' \<in> set (columns chw)" "chw_col b \<in> set (columns chw)"
    "''datetime'' \<in> set (columns mthw)" "mthw_col b \<in> set (columns mthw)"
  shows "\<exists>df. join_building chw mthw b = Inr df"
  using assms
  by (auto simp: join_building_def select_columns_def merge_inner_def split: sum.splits)

lemma join_building_iff:
  "join_building chw mthw b = Inr j \<longleftrightarrow>
     has_columns chw mthw b \<and>
     j = \<lparr>columns = [''datetime'', ''CHW'', ''MTHW''], rows = join_rows chw mthw b\<rparr>"
proof
  assume a: "join_building chw mthw b = Inr j"
  show "has_columns chw mthw b \<and>
     j = \<lparr>columns = [''datetime'', ''CHW'', ''MTHW''], rows = join_rows chw mthw b\<rparr>"
    using join_building_Inr[OF a] by (simp add: has_columns_def join_rows_def)
next
  assume b: "has_columns chw mthw b \<and>
     j = \<lparr>columns = [''datetime'', ''CHW'', ''MTHW''], rows = join_rows chw mthw b\<rparr>"
  then obtain j' where j': "join_building chw mthw b = Inr j'"
    using join_building_total[of chw b mthw] by (auto simp: has_columns_def)
  have "j' = j"
    using join_building_Inr[OF j'] b by (simp add: join_rows_def)
  with j' show "join_building chw mthw b = Inr j" by simp
qed

lemma flag_above_Inr:
  "flag_above dst src th df = Inr df' \<longleftrightarrow>
     src \<in> set (columns df) \<and> (\<forall>r \<in> set (rows df). comparable (r src)) \<and>
     df' = set_column dst (\<lambda>r. Flag (above (r src) th)) df"
  by (auto simp: flag_above_def list_ex_iff)

lemma analyse_iff:
  "analyse chw mthw b th = Inr (df, sdf) \<longleftrightarrow>
     has_columns chw mthw b \<and>
     (\<forall>r \<in> set (join_rows chw mthw b). comparable (r ''CHW'') \<and> comparable (r ''MTHW'')) \<and>
     df = \<lparr>columns = flag_columns, rows = map (flagged th) (join_rows chw mthw b)\<rparr> \<and>
     sdf = \<lparr>columns = flag_columns,
            rows = filter (\<lambda>r. r ''simul'' = Flag True)
                     (map (flagged th) (join_rows chw mthw b))\<rparr>"
proof (cases "join_building chw mthw b")
  case (Inl e)
  then have "\<not> has_columns chw mthw b"
    using join_building_iff[of chw mthw b] by auto
  with Inl show ?thesis by (simp add: analyse_def)
next
  case (Inr j)
  then have h: "has_columns chw mthw b"
    and j: "j = \<lparr>columns = [''datetime'', ''CHW'', ''MTHW''], rows = join_rows chw mthw b\<rparr>"
    by (simp_all add: join_building_iff)
  have rw: "(\<lambda>r. r(''CHW_on'' := Flag (above (r ''CHW'') th),
                   ''MTHW_on'' := Flag (above (r ''MTHW'') th),
                   ''simul'' := Flag (above (r ''CHW'') th \<and> above (r ''MTHW'') th))) = flagged th"
    by (simp add: flagged_def fun_eq_iff)
  show ?thesis
    unfolding analyse_def Inr
    by (auto simp: j h flag_above_def list_ex_iff set_column_def boolean_mask_def
        flag_columns_def Let_def comp_def rw)
qed

lemmas ex_defs = ex_workbook_def ex_chw_sheet_def ex_mthw_sheet_def CHW_SHEET_def MTHW_SHEET_def
  row_of_def

lemmas load_defs = load_data_def read_excel_def fix_timestamp_def set_column_def dropna_def
  sort_values_def

lemma ex_loaded: "load_data ex_workbook = Inr (ex_chw_df, ex_mthw_df)"
  by (simp add: ex_defs load_defs ex_chw_df_def ex_mthw_df_def fun_eq_iff)

lemma ex_has_columns: "has_columns ex_chw_df ex_mthw_df ''Library''"
  by (simp add: has_columns_def ex_chw_df_def ex_mthw_df_def chw_col_def mthw_col_def)

lemma ex_join_rows:
  "map (\<lambda>r. (r ''datetime'', r ''CHW'', r ''MTHW'')) (join_rows ex_chw_df ex_mthw_df ''Library'') =
     [(Stamp 1, Num 750, Num 800), (Stamp 2, Num 750, Num 650), (Stamp 3, Num 700, Num 800)]"
  by (simp add: join_rows_def ex_chw_df_def ex_mthw_df_def row_of_def pair_row_def
      chw_col_def mthw_col_def)

lemma ex_comparable:
  "\<forall>r \<in> set (join_rows ex_chw_df ex_mthw_df ''Library'').
     comparable (r ''CHW'') \<and> comparable (r ''MTHW'')"
  by (simp add: join_rows_def ex_chw_df_def ex_mthw_df_def row_of_def pair_row_def
      chw_col_def mthw_col_def)

lemma ex_analysed:
  "\<exists>df s. analyse ex_chw_df ex_mthw_df ''Library'' th = Inr (df, s)"
  by (simp add: analyse_iff ex_has_columns ex_comparable)

lemma ex_flag_rows:
  assumes "analyse ex_chw_df ex_mthw_df ''Library'' th = Inr (df, s)"
  shows "map (\<lambda>r. (r ''datetime'', r ''CHW'', r ''MTHW'', r ''CHW_on'', r ''MTHW_on'', r ''simul''))
           (rows df) =
         [(Stamp 1, Num 750, Num 800, Flag (th < 750), Flag (th < 800), Flag (th < 750)),
          (Stamp 2, Num 750, Num 650, Flag (th < 750), Flag (th < 650), Flag (th < 650)),
          (Stamp 3, Num 700, Num 800, Flag (th < 700), Flag (th < 800), Flag (th < 700))]"
proof -
  have r: "rows df = map (flagged th) (join_rows ex_chw_df ex_mthw_df ''Library'')"
    using assms by (simp add: analyse_iff)
  have "map (\<lambda>r. (r ''datetime'', r ''CHW'', r ''MTHW'', r ''CHW_on'', r ''MTHW_on'', r ''simul''))
           (rows df) =
        map (\<lambda>(d, a, b). (d, a, b, Flag (above a th), Flag (above b th),
                            Flag (above a th \<and> above b th)))
          (map (\<lambda>r. (r ''datetime'', r ''CHW'', r ''MTHW''))
             (join_rows ex_chw_df ex_mthw_df ''Library''))"
    by (simp add: r flagged_def comp_def)
  also have "\<dots> = [(Stamp 1, Num 750, Num 800, Flag (th < 750), Flag (th < 800), Flag (th < 750)),
          (Stamp 2, Num 750, Num 650, Flag (th < 750), Flag (th < 650), Flag (th < 650)),
          (Stamp 3, Num 700, Num 800, Flag (th < 700), Flag (th < 800), Flag (th < 700))]"
    unfolding ex_join_rows by auto
  finally show ?thesis .
qed

lemma ex_simul_stamps:
  assumes "analyse ex_chw_df ex_mthw_df ''Library'' th = Inr (df, s)"
  shows "map (\<lambda>r. r ''datetime'') (rows s) =
         map fst (filter (\<lambda>(d, a, b). above a th \<and> above b th)
           [(Stamp 1, Num 750, Num 800), (Stamp 2, Num 750, Num 650), (Stamp 3, Num 700, Num 800)])"
proof -
  have r: "rows s = filter (\<lambda>r. r ''simul'' = Flag True)
                     (map (flagged th) (join_rows ex_chw_df ex_mthw_df ''Library''))"
    using assms by (simp add: analyse_iff)
  have "map (\<lambda>r. r ''datetime'') (rows s) =
        map fst (filter (\<lambda>(d, a, b). above a th \<and> above b th)
          (map (\<lambda>r. (r ''datetime'', r ''CHW'', r ''MTHW''))
             (join_rows ex_chw_df ex_mthw_df ''Library'')))"
    by (simp add: r filter_map flagged_def comp_def)
  then show ?thesis unfolding ex_join_rows .
qed

subsection \<open>Threshold flags\<close>

text \<open>
  Claim C1. In every row of the joined frame, \<open>CHW_on\<close> is the result of the strict
  comparison of the CHW value with the threshold, \<open>MTHW_on\<close> that of the MTHW value, and
  \<open>simul\<close> is their conjunction. For a number \<open>x\<close> the flag is True exactly when
  \<open>threshold < x\<close>, so a value equal to the threshold is not on. The simultaneous subset
  consists of exactly the rows of the joined frame in which both flags are True, in the
  same order.
\<close>

theorem threshold_flags:
  assumes "analyse chw_df mthw_df building threshold = Inr (df, simul_df)"
  shows "(\<forall>r \<in> set (rows df).
            r ''CHW_on'' = Flag (above (r ''CHW'') threshold) \<and>
            r ''MTHW_on'' = Flag (above (r ''MTHW'') threshold) \<and>
            r ''simul'' = Flag (r ''CHW_on'' = Flag True \<and> r ''MTHW_on'' = Flag True) \<and>
            (\<forall>x. r ''CHW'' = Num x \<longrightarrow> (r ''CHW_on'' = Flag True) = (real_of_int threshold < x)) \<and>
            (\<forall>x. r ''MTHW'' = Num x \<longrightarrow> (r ''MTHW_on'' = Flag True) = (real_of_int threshold < x)) \<and>
            (r ''CHW'' = Num (real_of_int threshold) \<longrightarrow> r ''CHW_on'' = Flag False) \<and>
            (r ''MTHW'' = Num (real_of_int threshold) \<longrightarrow> r ''MTHW_on'' = Flag False)) \<and>
         rows simul_df =
           filter (\<lambda>r. r ''CHW_on'' = Flag True \<and> r ''MTHW_on'' = Flag True) (rows df)"
proof -
  have rws: "rows df = map (flagged threshold) (join_rows chw_df mthw_df building)"
    and s: "rows simul_df = filter (\<lambda>r. r ''simul'' = Flag True) (rows df)"
    using assms by (simp_all add: analyse_iff)
  have "rows simul_df =
      filter (\<lambda>r. r ''CHW_on'' = Flag True \<and> r ''MTHW_on'' = Flag True) (rows df)"
    unfolding s rws by (simp add: filter_map comp_def flagged_def)
  moreover have "\<forall>r \<in> set (rows df).
            r ''CHW_on'' = Flag (above (r ''CHW'') threshold) \<and>
            r ''MTHW_on'' = Flag (above (r ''MTHW'') threshold) \<and>
            r ''simul'' = Flag (r ''CHW_on'' = Flag True \<and> r ''MTHW_on'' = Flag True) \<and>
            (\<forall>x. r ''CHW'' = Num x \<longrightarrow> (r ''CHW_on'' = Flag True) = (real_of_int threshold < x)) \<and>
            (\<forall>x. r ''MTHW'' = Num x \<longrightarrow> (r ''MTHW_on'' = Flag True) = (real_of_int threshold < x)) \<and>
            (r ''CHW'' = Num (real_of_int threshold) \<longrightarrow> r ''CHW_on'' = Flag False) \<and>
            (r ''MTHW'' = Num (real_of_int threshold) \<longrightarrow> r ''MTHW_on'' = Flag False)"
    unfolding rws by (auto simp: flagged_def)
  ultimately show ?thesis by (rule_tac conjI)
qed

text \<open>The sample sheets at threshold 700: 750 and 800 are both on, 650 is not, and 700
  itself is not.\<close>

theorem threshold_flags_witness:
  "\<exists>df s. analyse ex_chw_df ex_mthw_df ''Library'' 700 = Inr (df, s) \<and>
     map (\<lambda>r. (r ''datetime'', r ''CHW'', r ''MTHW'', r ''CHW_on'', r ''MTHW_on'', r ''simul''))
       (rows df) =
       [(Stamp 1, Num 750, Num 800, Flag True, Flag True, Flag True),
        (Stamp 2, Num 750, Num 650, Flag True, Flag False, Flag False),
        (Stamp 3, Num 700, Num 800, Flag False, Flag True, Flag False)] \<and>
     rows s = filter (\<lambda>r. r ''CHW_on'' = Flag True \<and> r ''MTHW_on'' = Flag True) (rows df) \<and>
     map (\<lambda>r. r ''datetime'') (rows s) = [Stamp 1]"
proof -
  obtain df s where a: "analyse ex_chw_df ex_mthw_df ''Library'' 700 = Inr (df, s)"
    using ex_analysed by blast
  have v: "map (\<lambda>r. (r ''datetime'', r ''CHW'', r ''MTHW'', r ''CHW_on'', r ''MTHW_on'', r ''simul''))
       (rows df) =
       [(Stamp 1, Num 750, Num 800, Flag True, Flag True, Flag True),
        (Stamp 2, Num 750, Num 650, Flag True, Flag False, Flag False),
        (Stamp 3, Num 700, Num 800, Flag False, Flag True, Flag False)]"
    unfolding ex_flag_rows[OF a] by simp
  have f: "rows s = filter (\<lambda>r. r ''CHW_on'' = Flag True \<and> r ''MTHW_on'' = Flag True) (rows df)"
    using threshold_flags[OF a] by (rule conjunct2)
  have w: "map (\<lambda>r. r ''datetime'') (rows s) = [Stamp 1]"
    unfolding ex_simul_stamps[OF a] by simp
  show ?thesis
    by (intro exI conjI) (fact a, fact v, fact f, fact w)
qed

lemma above_mono: "t1 < t2 \<Longrightarrow> above c t2 \<Longrightarrow> above c t1"
  by (cases c) (auto split: if_splits)

text \<open>
  Claim C3. For the same two frames and the same building, and thresholds \<open>t1 < t2\<close>,
  every row of the simultaneous subset for \<open>t2\<close> is a row of the simultaneous subset for
  \<open>t1\<close>; more precisely the subset for \<open>t2\<close> is the subset for \<open>t1\<close> restricted to
  the rows whose two values are above \<open>t2\<close>.
\<close>

theorem simultaneous_antitone:
  assumes "t1 < t2"
    and "analyse chw_df mthw_df building t1 = Inr (df1, simul1)"
    and "analyse chw_df mthw_df building t2 = Inr (df2, simul2)"
  shows "set (rows simul2) \<subseteq> set (rows simul1) \<and>
         rows simul2 = filter (\<lambda>r. above (r ''CHW'') t2 \<and> above (r ''MTHW'') t2) (rows simul1)"
proof -
  let ?J = "join_rows chw_df mthw_df building"
  have s1: "rows simul1 = filter (\<lambda>r. r ''simul'' = Flag True) (map (flagged t1) ?J)"
    using assms(2) by (simp add: analyse_iff)
  have s2: "rows simul2 = filter (\<lambda>r. r ''simul'' = Flag True) (map (flagged t2) ?J)"
    using assms(3) by (simp add: analyse_iff)
  have same: "flagged t2 r = flagged t1 r"
    if "above (r ''CHW'') t2" "above (r ''MTHW'') t2" for r
    using that above_mono[OF assms(1)] by (simp add: flagged_def)
  have e1: "rows simul1 = map (flagged t1)
      (filter (\<lambda>r. above (r ''CHW'') t1 \<and> above (r ''MTHW'') t1) ?J)"
    unfolding s1 by (simp add: filter_map comp_def flagged_def)
  have e2: "rows simul2 = map (flagged t2)
      (filter (\<lambda>r. above (r ''CHW'') t2 \<and> above (r ''MTHW'') t2) ?J)"
    unfolding s2 by (simp add: filter_map comp_def flagged_def)
  have e2': "rows simul2 = map (flagged t1)
      (filter (\<lambda>r. above (r ''CHW'') t2 \<and> above (r ''MTHW'') t2) ?J)"
    unfolding e2 by (rule map_cong) (auto simp: same)
  have eq: "rows simul2 =
      filter (\<lambda>r. above (r ''CHW'') t2 \<and> above (r ''MTHW'') t2) (rows simul1)"
    unfolding e2' e1 using above_mono[OF assms(1)]
    by (auto simp: filter_map comp_def flagged_def intro!: arg_cong[where f="map _"] filter_cong)
  then have "set (rows simul2) \<subseteq> set (rows simul1)" by auto
  with eq show ?thesis by (rule_tac conjI)
qed

text \<open>The sample sheets at thresholds 600 and 700.\<close>

theorem simultaneous_antitone_witness:
  "\<exists>df1 s1 df2 s2.
     (600::int) < 700 \<and>
     analyse ex_chw_df ex_mthw_df ''Library'' 600 = Inr (df1, s1) \<and>
     analyse ex_chw_df ex_mthw_df ''Library'' 700 = Inr (df2, s2) \<and>
     set (rows s2) \<subseteq> set (rows s1) \<and>
     map (\<lambda>r. r ''datetime'') (rows s1) = [Stamp 1, Stamp 2, Stamp 3] \<and>
     map (\<lambda>r. r ''datetime'') (rows s2) = [Stamp 1]"
proof -
  have lt: "(600::int) < 700" by simp
  obtain df1 s1 where a1: "analyse ex_chw_df ex_mthw_df ''Library'' 600 = Inr (df1, s1)"
    using ex_analysed by blast
  obtain df2 s2 where a2: "analyse ex_chw_df ex_mthw_df ''Library'' 700 = Inr (df2, s2)"
    using ex_analysed by blast
  have sub: "set (rows s2) \<subseteq> set (rows s1)"
    using simultaneous_antitone[OF lt a1 a2] by (rule conjunct1)
  have v1: "map (\<lambda>r. r ''datetime'') (rows s1) = [Stamp 1, Stamp 2, Stamp 3]"
    unfolding ex_simul_stamps[OF a1] by simp
  have v2: "map (\<lambda>r. r ''datetime'') (rows s2) = [Stamp 1]"
    unfolding ex_simul_stamps[OF a2] by simp
  show ?thesis
    by (intro exI conjI) (fact lt, fact a1, fact a2, fact sub, fact v1, fact v2)
qed

lemma dup_loaded: "load_data dup_workbook = Inr (dup_chw_df, dup_mthw_df)"
  by (simp add: dup_workbook_def dup_chw_sheet_def dup_mthw_sheet_def CHW_SHEET_def
      MTHW_SHEET_def row_of_def load_defs dup_chw_df_def dup_mthw_df_def fun_eq_iff)

lemma dup_has_columns: "has_columns dup_chw_df dup_mthw_df ''Library''"
  by (simp add: has_columns_def dup_chw_df_def dup_mthw_df_def chw_col_def mthw_col_def)

lemma join_building_eq:
  "has_columns chw mthw b \<Longrightarrow>
   join_building chw mthw b =
     Inr \<lparr>columns = [''datetime'', ''CHW'', ''MTHW''], rows = join_rows chw mthw b\<rparr>"
  by (simp add: join_building_iff)

subsection \<open>The inner join\<close>

lemma length_join_rows:
  "length (join_rows chw mthw b) =
     sum_list (map (\<lambda>l. length (filter (\<lambda>r. r ''datetime'' = l ''datetime'') (rows mthw)))
                   (rows chw))"
  by (simp add: join_rows_def length_concat comp_def)

lemma matches_le_one:
  "distinct (map k rs) \<Longrightarrow> length (filter (\<lambda>r. k r = v) rs) \<le> 1"
proof (induction rs)
  case Nil
  show ?case by simp
next
  case (Cons a rs)
  show ?case
  proof (cases "k a = v")
    case True
    then have "v \<notin> k ` set rs" using Cons.prems by auto
    then have "filter (\<lambda>r. k r = v) rs = []"
      by (auto simp: filter_empty_conv)
    with True show ?thesis by simp
  next
    case False
    with Cons show ?thesis by simp
  qed
qed

lemma matches_le_left:
  assumes "distinct (map k rs)"
  shows "sum_list (map (\<lambda>l. length (filter (\<lambda>r. k r = k l) rs)) ls) \<le> length ls"
proof (induction ls)
  case Nil
  show ?case by simp
next
  case (Cons l ls)
  have "length (filter (\<lambda>r. k r = k l) rs) \<le> 1"
    using assms by (rule matches_le_one)
  with Cons show ?case by simp
qed

lemma matches_swap:
  "sum_list (map (\<lambda>l. length (filter (\<lambda>r. k r = k l) rs)) ls) =
   sum_list (map (\<lambda>r. length (filter (\<lambda>l. k l = k r) ls)) rs)"
proof (induction ls)
  case Nil
  show ?case by simp
next
  case (Cons l ls)
  have "length (filter (\<lambda>r. k r = k l) rs) = sum_list (map (\<lambda>r. if k l = k r then 1 else 0) rs)"
    by (induction rs) auto
  moreover have "sum_list (map (\<lambda>r. length (filter (\<lambda>l. k l = k r) (l # ls))) rs) =
      sum_list (map (\<lambda>r. if k l = k r then 1 else 0) rs) +
      sum_list (map (\<lambda>r. length (filter (\<lambda>l. k l = k r) ls)) rs)"
    by (induction rs) auto
  ultimately show ?case using Cons by simp
qed

lemma matches_le_right:
  assumes "distinct (map k ls)"
  shows "sum_list (map (\<lambda>l. length (filter (\<lambda>r. k r = k l) rs)) ls) \<le> length rs"
  unfolding matches_swap[of k rs ls] using assms by (rule matches_le_left)

lemma matches_le_product:
  "sum_list (map (\<lambda>l. length (filter (\<lambda>r. k r = k l) rs)) ls) \<le> length ls * length rs"
proof (induction ls)
  case Nil
  show ?case by simp
next
  case (Cons l ls)
  show ?case
    using add_mono[OF length_filter_le[of "\<lambda>r. k r = k l" rs] Cons.IH] by simp
qed

lemma join_rows_stamp:
  assumes "x \<in> set (join_rows chw mthw b)"
  shows "x ''datetime'' \<in> set (datetime_column chw) \<and> x ''datetime'' \<in> set (datetime_column mthw)"
proof -
  from assms obtain l r where l: "l \<in> set (rows chw)" and r: "r \<in> set (rows mthw)"
    and k: "r ''datetime'' = l ''datetime''" and x: "x = pair_row b l r"
    by (auto simp: join_rows_def)
  have e: "x ''datetime'' = l ''datetime''" by (simp add: x pair_row_def)
  have "l ''datetime'' \<in> set (datetime_column chw)"
    using l by (simp add: datetime_column_def)
  moreover have "r ''datetime'' \<in> set (datetime_column mthw)"
    using r by (simp add: datetime_column_def)
  ultimately show ?thesis by (simp add: e k)
qed

lemma join_rows_disjoint:
  assumes "set (datetime_column chw) \<inter> set (datetime_column mthw) = {}"
  shows "join_rows chw mthw b = []"
proof -
  have "filter (\<lambda>r. r ''datetime'' = l ''datetime'') (rows mthw) = []" if "l \<in> set (rows chw)" for l
    using assms that by (force simp: datetime_column_def filter_empty_conv)
  then show ?thesis by (simp add: join_rows_def)
qed

text \<open>
  Claim C4, as amended. When both frames have the \<open>datetime\<close> column and the value
  column of the building, the join returns a frame (it does not fail), and: the timestamp
  of every joined row occurs in both frames; the number of joined rows is at most the
  product of the two row counts, at most the row count of the CHW frame when the MTHW
  frame has no timestamp twice, at most that of the MTHW frame when the CHW frame has no
  timestamp twice, hence at most the minimum of the two when neither has; and when the
  two frames share no timestamp the result has no rows.
\<close>

theorem inner_join_rows:
  assumes "''datetime'' \<in> set (columns chw_df)" and "chw_col building \<in> set (columns chw_df)"
    and "''datetime'' \<in> set (columns mthw_df)" and "mthw_col building \<in> set (columns mthw_df)"
  shows "\<exists>df. join_building chw_df mthw_df building = Inr df \<and>
           (\<forall>r \<in> set (rows df).
              r ''datetime'' \<in> set (datetime_column chw_df) \<and>
              r ''datetime'' \<in> set (datetime_column mthw_df)) \<and>
           length (rows df) \<le> length (rows chw_df) * length (rows mthw_df) \<and>
           (distinct (datetime_column mthw_df) \<longrightarrow> length (rows df) \<le> length (rows chw_df)) \<and>
           (distinct (datetime_column chw_df) \<longrightarrow> length (rows df) \<le> length (rows mthw_df)) \<and>
           (distinct (datetime_column chw_df) \<and> distinct (datetime_column mthw_df) \<longrightarrow>
              length (rows df) \<le> min (length (rows chw_df)) (length (rows mthw_df))) \<and>
           (set (datetime_column chw_df) \<inter> set (datetime_column mthw_df) = {} \<longrightarrow> rows df = [])"
proof -
  let ?J = "join_rows chw_df mthw_df building"
  let ?df = "\<lparr>columns = [''datetime'', ''CHW'', ''MTHW''], rows = ?J\<rparr>"
  have h: "has_columns chw_df mthw_df building"
    using assms by (simp add: has_columns_def)
  have j: "join_building chw_df mthw_df building = Inr ?df"
    using h by (rule join_building_eq)
  have s: "\<forall>r \<in> set ?J. r ''datetime'' \<in> set (datetime_column chw_df) \<and>
              r ''datetime'' \<in> set (datetime_column mthw_df)"
    using join_rows_stamp by blast
  have p: "length ?J \<le> length (rows chw_df) * length (rows mthw_df)"
    unfolding length_join_rows by (rule matches_le_product)
  have l: "length ?J \<le> length (rows chw_df)" if "distinct (datetime_column mthw_df)"
    unfolding length_join_rows using that matches_le_left[of "\<lambda>r. r ''datetime''"]
    by (simp add: datetime_column_def)
  have r: "length ?J \<le> length (rows mthw_df)" if "distinct (datetime_column chw_df)"
    unfolding length_join_rows using that matches_le_right[of "\<lambda>r. r ''datetime''"]
    by (simp add: datetime_column_def)
  have e: "?J = []" if "set (datetime_column chw_df) \<inter> set (datetime_column mthw_df) = {}"
    using that by (rule join_rows_disjoint)
  show ?thesis
    using j s p l r e by (intro exI[of _ ?df]) simp
qed

text \<open>The sample frames: three and four rows, no timestamp twice, three joined rows.\<close>

theorem inner_join_rows_witness:
  "\<exists>df. join_building ex_chw_df ex_mthw_df ''Library'' = Inr df \<and>
     distinct (datetime_column ex_chw_df) \<and> distinct (datetime_column ex_mthw_df) \<and>
     length (rows df) \<le> min (length (rows ex_chw_df)) (length (rows ex_mthw_df)) \<and>
     length (rows df) = 3 \<and> length (rows ex_chw_df) = 3 \<and> length (rows ex_mthw_df) = 4"
proof -
  have c: "''datetime'' \<in> set (columns ex_chw_df)" "chw_col ''Library'' \<in> set (columns ex_chw_df)"
    "''datetime'' \<in> set (columns ex_mthw_df)" "mthw_col ''Library'' \<in> set (columns ex_mthw_df)"
    using ex_has_columns by (simp_all add: has_columns_def)
  have d: "distinct (datetime_column ex_chw_df)" "distinct (datetime_column ex_mthw_df)"
    by (simp_all add: datetime_column_def ex_chw_df_def ex_mthw_df_def row_of_def)
  obtain df where j: "join_building ex_chw_df ex_mthw_df ''Library'' = Inr df"
    and m: "distinct (datetime_column ex_chw_df) \<and> distinct (datetime_column ex_mthw_df) \<longrightarrow>
              length (rows df) \<le> min (length (rows ex_chw_df)) (length (rows ex_mthw_df))"
    using inner_join_rows[OF c] by blast
  have n: "length (rows df) = 3"
    using j ex_join_rows by (auto simp: join_building_iff dest: arg_cong[where f=length])
  have k: "length (rows ex_chw_df) = 3" "length (rows ex_mthw_df) = 4"
    by (simp_all add: ex_chw_df_def ex_mthw_df_def)
  from m d have "length (rows df) \<le> min (length (rows ex_chw_df)) (length (rows ex_mthw_df))"
    by simp
  with j d n k show ?thesis by (intro exI[of _ df]) simp
qed

text \<open>
  The bound by the minimum, as claim C4 states it for every pair of tables, fails: a
  workbook whose two sheets each hold the same instant twice loads into two frames of two
  rows, and their join has four rows.
\<close>

theorem inner_join_rows_counterexample:
  "load_data dup_workbook = Inr (dup_chw_df, dup_mthw_df) \<and>
   joined_count dup_chw_df dup_mthw_df ''Library'' = Some 4 \<and>
   min (length (rows dup_chw_df)) (length (rows dup_mthw_df)) = 2"
proof -
  have "length (join_rows dup_chw_df dup_mthw_df ''Library'') = 4"
    by (simp add: join_rows_def dup_chw_df_def dup_mthw_df_def row_of_def)
  then have "joined_count dup_chw_df dup_mthw_df ''Library'' = Some 4"
    by (simp add: joined_count_def join_building_eq[OF dup_has_columns])
  moreover have "min (length (rows dup_chw_df)) (length (rows dup_mthw_df)) = 2"
    by (simp add: dup_chw_df_def dup_mthw_df_def)
  ultimately show ?thesis using dup_loaded by simp
qed

subsection \<open>The loader\<close>

lemma fix_timestamp_iff:
  "fix_timestamp sheet = Inr df \<longleftrightarrow>
     ''Timestamp'' \<in> set (columns sheet) \<and>
     df = \<lparr>columns = (if ''datetime'' \<in> set (columns sheet) then columns sheet
                      else columns sheet @ [''datetime'']),
           rows = sort_key (\<lambda>r. stamp_value (r ''datetime''))
                    (filter (\<lambda>r. r ''datetime'' \<noteq> NA)
                       (map (\<lambda>r. r(''datetime'' := to_datetime (r ''Timestamp''))) (rows sheet)))\<rparr>"
  by (auto simp: fix_timestamp_def set_column_def dropna_def sort_values_def)

lemma to_datetime_cases: "to_datetime c = NA \<or> (\<exists>t. c = Stamp t \<and> to_datetime c = Stamp t)"
  by (cases c) simp_all

lemma fix_timestamp_table:
  assumes "fix_timestamp sheet = Inr df"
  shows "columns df = (if ''datetime'' \<in> set (columns sheet) then columns sheet
                       else columns sheet @ [''datetime''])"
    and "\<forall>r \<in> set (rows df). \<exists>t. r ''datetime'' = Stamp t \<and> r ''Timestamp'' = Stamp t"
    and "sorted (map stamp_value (datetime_column df))"
    and "mset (rows df) =
           mset (map (\<lambda>r. r(''datetime'' := to_datetime (r ''Timestamp'')))
                  (filter (\<lambda>r. to_datetime (r ''Timestamp'') \<noteq> NA) (rows sheet)))"
    and "\<forall>r' \<in> set (rows df). \<exists>r \<in> set (rows sheet). \<forall>c. c \<noteq> ''datetime'' \<longrightarrow> r' c = r c"
proof -
  let ?stamped = "map (\<lambda>r. r(''datetime'' := to_datetime (r ''Timestamp''))) (rows sheet)"
  let ?kept = "filter (\<lambda>r. r ''datetime'' \<noteq> NA) ?stamped"
  have c: "columns df = (if ''datetime'' \<in> set (columns sheet) then columns sheet
                       else columns sheet @ [''datetime''])"
    and r: "rows df = sort_key (\<lambda>r. stamp_value (r ''datetime'')) ?kept"
    using assms by (simp_all add: fix_timestamp_iff)
  show "columns df = (if ''datetime'' \<in> set (columns sheet) then columns sheet
                       else columns sheet @ [''datetime''])"
    by (rule c)
  have s: "set (rows df) = set ?kept" by (simp add: r)
  show "\<forall>r \<in> set (rows df). \<exists>t. r ''datetime'' = Stamp t \<and> r ''Timestamp'' = Stamp t"
  proof
    fix x assume "x \<in> set (rows df)"
    then obtain y where y: "y \<in> set (rows sheet)"
      and x: "x = y(''datetime'' := to_datetime (y ''Timestamp''))"
      and n: "to_datetime (y ''Timestamp'') \<noteq> NA"
      unfolding s by auto
    from n obtain t where "y ''Timestamp'' = Stamp t" "to_datetime (y ''Timestamp'') = Stamp t"
      using to_datetime_cases[of "y ''Timestamp''"] by auto
    then show "\<exists>t. x ''datetime'' = Stamp t \<and> x ''Timestamp'' = Stamp t"
      by (simp add: x)
  qed
  show "sorted (map stamp_value (datetime_column df))"
    using sorted_sort_key[of "\<lambda>r. stamp_value (r ''datetime'')" ?kept]
    by (simp add: r datetime_column_def comp_def)
  show "mset (rows df) =
           mset (map (\<lambda>r. r(''datetime'' := to_datetime (r ''Timestamp'')))
                  (filter (\<lambda>r. to_datetime (r ''Timestamp'') \<noteq> NA) (rows sheet)))"
    by (simp add: r filter_map comp_def)
  show "\<forall>r' \<in> set (rows df). \<exists>r \<in> set (rows sheet). \<forall>c. c \<noteq> ''datetime'' \<longrightarrow> r' c = r c"
    unfolding s by auto
qed

lemma load_data_iff:
  "load_data wb = Inr (chw_df, mthw_df) \<longleftrightarrow>
     (\<exists>cs ms. wb CHW_SHEET = Some cs \<and> wb MTHW_SHEET = Some ms \<and>
        fix_timestamp cs = Inr chw_df \<and> fix_timestamp ms = Inr mthw_df)"
  by (auto simp: load_data_def read_excel_def split: option.splits sum.splits)

text \<open>
  Claim C7, as amended. For each of the two sheets, the frame the loader returns has the
  columns of the sheet, with \<open>datetime\<close> added at the end unless the sheet already has a
  column of that name; every row has a valid instant under \<open>datetime\<close>, the one its
  \<open>Timestamp\<close> cell denotes; the instants are in ascending order; the rows are exactly
  the rows of the sheet whose timestamp can be read, each once per occurrence, with only
  the \<open>datetime\<close> cell set, so every other column is intact. Rows of equal timestamp
  are all kept: nothing removes duplicates.
\<close>

theorem load_data_tables:
  assumes "load_data wb = Inr (chw_df, mthw_df)"
  shows "\<forall>(name, df) \<in> {(CHW_SHEET, chw_df), (MTHW_SHEET, mthw_df)}.
           \<exists>sheet. wb name = Some sheet \<and>
             columns df = (if ''datetime'' \<in> set (columns sheet) then columns sheet
                           else columns sheet @ [''datetime'']) \<and>
             (\<forall>r \<in> set (rows df). \<exists>t. r ''datetime'' = Stamp t \<and> r ''Timestamp'' = Stamp t) \<and>
             sorted (map stamp_value (datetime_column df)) \<and>
             mset (rows df) =
               mset (map (\<lambda>r. r(''datetime'' := to_datetime (r ''Timestamp'')))
                      (filter (\<lambda>r. to_datetime (r ''Timestamp'') \<noteq> NA) (rows sheet))) \<and>
             (\<forall>r' \<in> set (rows df). \<exists>r \<in> set (rows sheet).
                \<forall>c. c \<noteq> ''datetime'' \<longrightarrow> r' c = r c)"
proof -
  from assms obtain cs ms where cs: "wb CHW_SHEET = Some cs" and ms: "wb MTHW_SHEET = Some ms"
    and fc: "fix_timestamp cs = Inr chw_df" and fm: "fix_timestamp ms = Inr mthw_df"
    unfolding load_data_iff by blast
  show ?thesis
    using cs ms fix_timestamp_table[OF fc] fix_timestamp_table[OF fm] by simp
qed

text \<open>The sample workbook: four rows in the CHW sheet, one with an unreadable
  timestamp; three rows are loaded, in ascending order.\<close>

theorem load_data_tables_witness:
  "load_data ex_workbook = Inr (ex_chw_df, ex_mthw_df) \<and>
   length (rows ex_chw_sheet) = 4 \<and>
   datetime_column ex_chw_df = [Stamp 1, Stamp 2, Stamp 3] \<and>
   sorted (map stamp_value (datetime_column ex_chw_df)) \<and>
   sorted (map stamp_value (datetime_column ex_mthw_df))"
proof -
  have "sorted (map stamp_value (datetime_column ex_chw_df)) \<and>
        sorted (map stamp_value (datetime_column ex_mthw_df))"
    using load_data_tables[OF ex_loaded] by auto
  moreover have "length (rows ex_chw_sheet) = 4"
    by (simp add: ex_chw_sheet_def)
  moreover have "datetime_column ex_chw_df = [Stamp 1, Stamp 2, Stamp 3]"
    by (simp add: datetime_column_def ex_chw_df_def row_of_def)
  ultimately show ?thesis using ex_loaded by simp
qed

text \<open>Claim C7 as stated promises a frame free of duplicate timestamps. A sheet that
  holds the same instant twice is loaded with both rows.\<close>

theorem load_data_tables_counterexample:
  "load_data dup_workbook = Inr (dup_chw_df, dup_mthw_df) \<and>
   datetime_column dup_chw_df = [Stamp 1, Stamp 1] \<and>
   \<not> distinct (datetime_column dup_chw_df)"
proof -
  have "datetime_column dup_chw_df = [Stamp 1, Stamp 1]"
    by (simp add: datetime_column_def dup_chw_df_def row_of_def)
  then show ?thesis using dup_loaded by simp
qed

lemma run_app_load_error:
  "load_data wb = Inl e \<Longrightarrow>
   run_app wb pick threshold = ([Title ''Simultaneous Heating + Cooling Analyzer''], Raised e)"
  by (simp add: run_app_def)

lemma load_data_missing:
  assumes "wb CHW_SHEET = None \<or> wb MTHW_SHEET = None \<or>
           (\<exists>sheet. (wb CHW_SHEET = Some sheet \<or> wb MTHW_SHEET = Some sheet) \<and>
                     ''Timestamp'' \<notin> set (columns sheet))"
  shows "load_data wb =
           Inl (if wb CHW_SHEET = None then WorksheetNotFound CHW_SHEET
                else if wb MTHW_SHEET = None then WorksheetNotFound MTHW_SHEET
                else KeyError ''Timestamp'')"
  using assms
  by (auto simp: load_data_def read_excel_def fix_timestamp_def split: option.splits sum.splits)

lemma no_timestamp_missing:
  "\<exists>sheet. (no_timestamp_workbook CHW_SHEET = Some sheet \<or>
            no_timestamp_workbook MTHW_SHEET = Some sheet) \<and>
           ''Timestamp'' \<notin> set (columns sheet)"
  by (rule exI[of _ "\<lparr>columns = [''Time'', ''Library MTHW (kbtuh)''], rows = []\<rparr>"])
     (simp add: no_timestamp_workbook_def CHW_SHEET_def MTHW_SHEET_def)

lemma no_timestamp_present:
  "no_timestamp_workbook CHW_SHEET \<noteq> None" "no_timestamp_workbook MTHW_SHEET \<noteq> None"
  by (simp_all add: no_timestamp_workbook_def CHW_SHEET_def MTHW_SHEET_def)

text \<open>
  Claim C8, as amended. If one of the two sheets is absent from the workbook, or one of
  them has no \<open>Timestamp\<close> column, \<open>load_data\<close> fails with the exception of the library
  call that misses it: the worksheet error for the first absent sheet, or the bare
  KeyError for the column \<open>Timestamp\<close>. No table is returned. Nothing in the script
  catches the exception, so the run ends with it right after the page title: nothing
  else is computed or shown, and the script itself writes no message about the missing
  sheet or column on the page.
\<close>

theorem missing_sheet_or_column:
  assumes "wb CHW_SHEET = None \<or> wb MTHW_SHEET = None \<or>
           (\<exists>sheet. (wb CHW_SHEET = Some sheet \<or> wb MTHW_SHEET = Some sheet) \<and>
                     ''Timestamp'' \<notin> set (columns sheet))"
  shows "\<exists>e. load_data wb = Inl e \<and>
           e = (if wb CHW_SHEET = None then WorksheetNotFound CHW_SHEET
                else if wb MTHW_SHEET = None then WorksheetNotFound MTHW_SHEET
                else KeyError ''Timestamp'') \<and>
           run_app wb pick threshold =
             ([Title ''Simultaneous Heating + Cooling Analyzer''], Raised e) \<and>
           \<not> list_ex is_message (fst (run_app wb pick threshold))"
proof -
  let ?e = "if wb CHW_SHEET = None then WorksheetNotFound CHW_SHEET
            else if wb MTHW_SHEET = None then WorksheetNotFound MTHW_SHEET
            else KeyError ''Timestamp''"
  have l: "load_data wb = Inl ?e"
    using assms by (rule load_data_missing)
  have r: "run_app wb pick threshold =
             ([Title ''Simultaneous Heating + Cooling Analyzer''], Raised ?e)"
    using l by (rule run_app_load_error)
  have "\<not> list_ex is_message (fst (run_app wb pick threshold))"
    unfolding r by simp
  with l r show ?thesis by simp
qed

text \<open>A workbook without the MTHW sheet, and one whose MTHW sheet has no
  \<open>Timestamp\<close> column.\<close>

theorem missing_sheet_or_column_witness:
  "no_mthw_workbook MTHW_SHEET = None \<and>
   load_data no_mthw_workbook = Inl (WorksheetNotFound ''MTHW hourly'') \<and>
   run_app no_mthw_workbook 0 700 =
     ([Title ''Simultaneous Heating + Cooling Analyzer''],
      Raised (WorksheetNotFound ''MTHW hourly'')) \<and>
   load_data no_timestamp_workbook = Inl (KeyError ''Timestamp'') \<and>
   run_app no_timestamp_workbook 0 700 =
     ([Title ''Simultaneous Heating + Cooling Analyzer''], Raised (KeyError ''Timestamp''))"
proof -
  have n: "no_mthw_workbook MTHW_SHEET = None"
    by (simp add: no_mthw_workbook_def CHW_SHEET_def MTHW_SHEET_def)
  have c: "no_mthw_workbook CHW_SHEET \<noteq> None"
    by (simp add: no_mthw_workbook_def)
  show ?thesis
    using missing_sheet_or_column[of no_mthw_workbook 0 700] n c
      missing_sheet_or_column[of no_timestamp_workbook 0 700] no_timestamp_missing
      no_timestamp_present
    by (simp add: MTHW_SHEET_def)
qed

text \<open>
  Claim C8 as stated has the failure reach the user as a clear message about the missing
  sheet or column. The script has no handler and no call that writes an error. On a
  workbook whose MTHW sheet lacks the \<open>Timestamp\<close> column, the run ends with the bare
  KeyError of the column lookup, and the page the script has built holds the title and
  no message.
\<close>

theorem missing_sheet_or_column_counterexample:
  "load_data no_timestamp_workbook = Inl (KeyError ''Timestamp'') \<and>
   run_app no_timestamp_workbook 0 700 =
     ([Title ''Simultaneous Heating + Cooling Analyzer''], Raised (KeyError ''Timestamp'')) \<and>
   \<not> list_ex is_message (fst (run_app no_timestamp_workbook 0 700))"
proof -
  have l: "load_data no_timestamp_workbook = Inl (KeyError ''Timestamp'')"
    using load_data_missing[of no_timestamp_workbook, OF disjI2, OF disjI2,
        OF no_timestamp_missing] no_timestamp_present
    by simp
  have r: "run_app no_timestamp_workbook 0 700 =
     ([Title ''Simultaneous Heating + Cooling Analyzer''], Raised (KeyError ''Timestamp''))"
    using l by (rule run_app_load_error)
  have "\<not> list_ex is_message (fst (run_app no_timestamp_workbook 0 700))"
    unfolding r by simp
  with l r show ?thesis by simp
qed

subsection \<open>Building names\<close>

lemma set_extract_building_names:
  "set (extract_building_names cols sfx) =
     {name. \<exists>col \<in> set cols. re_match_group sfx col = Some name}"
  by (induction cols) (auto split: option.splits)

lemma extract_building_names_perm:
  "mset cols' = mset cols \<Longrightarrow>
   set (extract_building_names cols' sfx) = set (extract_building_names cols sfx)"
  using mset_eq_setD[of cols' cols] by (simp add: set_extract_building_names)

text \<open>
  Claim C6. \<open>common_buildings\<close> is sorted in the order of strings, has no element twice,
  and its elements are exactly the names extracted from the CHW columns that are also
  extracted from the MTHW columns; it is the only list with these three properties. Its
  value does not change when either list of columns is permuted.
\<close>

theorem common_buildings_sorted_intersection:
  "sorted (common_buildings chw_columns mthw_columns) \<and>
   distinct (common_buildings chw_columns mthw_columns) \<and>
   set (common_buildings chw_columns mthw_columns) =
     set (extract_building_names chw_columns ''CHW'')
     \<inter> set (extract_building_names mthw_columns ''MTHW'') \<and>
   (\<forall>xs. sorted xs \<and> distinct xs \<and>
         set xs = set (extract_building_names chw_columns ''CHW'')
                  \<inter> set (extract_building_names mthw_columns ''MTHW'')
         \<longrightarrow> xs = common_buildings chw_columns mthw_columns) \<and>
   (mset chw_columns' = mset chw_columns \<and> mset mthw_columns' = mset mthw_columns
      \<longrightarrow> common_buildings chw_columns' mthw_columns'
          = common_buildings chw_columns mthw_columns)"
proof -
  let ?S = "set (extract_building_names chw_columns ''CHW'')
            \<inter> set (extract_building_names mthw_columns ''MTHW'')"
  have f: "finite ?S" by simp
  have c: "common_buildings chw_columns mthw_columns = sorted_list_of_set ?S"
    by (simp add: common_buildings_def)
  have s: "sorted (sorted_list_of_set ?S)" and d: "distinct (sorted_list_of_set ?S)"
    and e: "set (sorted_list_of_set ?S) = ?S"
    using f by simp_all
  have u: "xs = sorted_list_of_set ?S" if "sorted xs \<and> distinct xs \<and> set xs = ?S" for xs
    using that s d e by (intro sorted_distinct_set_unique) simp_all
  have p: "common_buildings chw_columns' mthw_columns' = common_buildings chw_columns mthw_columns"
    if "mset chw_columns' = mset chw_columns \<and> mset mthw_columns' = mset mthw_columns"
    using that
    by (simp add: common_buildings_def extract_building_names_perm[of chw_columns' chw_columns]
        extract_building_names_perm[of mthw_columns' mthw_columns])
  show ?thesis
    unfolding c using s d e u p[unfolded c] by blast
qed

theorem common_buildings_sorted_intersection_witness:
  "mset [''Library CHW (kbtuh)'', ''Timestamp'', ''Zoo CHW (kbtuh)'', ''Annex CHW (kbtuh)'']
     = mset [''Timestamp'', ''Zoo CHW (kbtuh)'', ''Annex CHW (kbtuh)'', ''Library CHW (kbtuh)''] \<and>
   common_buildings
     [''Library CHW (kbtuh)'', ''Timestamp'', ''Zoo CHW (kbtuh)'', ''Annex CHW (kbtuh)'']
     [''Timestamp'', ''Zoo MTHW (kbtuh)'', ''Library MTHW (kbtuh)'', ''Zoo MTHW (kbtuh)'']
   = common_buildings
     [''Timestamp'', ''Zoo CHW (kbtuh)'', ''Annex CHW (kbtuh)'', ''Library CHW (kbtuh)'']
     [''Timestamp'', ''Zoo MTHW (kbtuh)'', ''Library MTHW (kbtuh)'', ''Zoo MTHW (kbtuh)''] \<and>
   common_buildings
     [''Timestamp'', ''Zoo CHW (kbtuh)'', ''Annex CHW (kbtuh)'', ''Library CHW (kbtuh)'']
     [''Timestamp'', ''Zoo MTHW (kbtuh)'', ''Library MTHW (kbtuh)'', ''Zoo MTHW (kbtuh)'']
   = [''Library'', ''Zoo'']"
proof -
  have m: "mset [''Library CHW (kbtuh)'', ''Timestamp'', ''Zoo CHW (kbtuh)'', ''Annex CHW (kbtuh)'']
     = mset [''Timestamp'', ''Zoo CHW (kbtuh)'', ''Annex CHW (kbtuh)'', ''Library CHW (kbtuh)'']"
    by simp
  have v: "common_buildings
     [''Timestamp'', ''Zoo CHW (kbtuh)'', ''Annex CHW (kbtuh)'', ''Library CHW (kbtuh)'']
     [''Timestamp'', ''Zoo MTHW (kbtuh)'', ''Library MTHW (kbtuh)'', ''Zoo MTHW (kbtuh)'']
   = [''Library'', ''Zoo'']"
    by (simp add: common_buildings_def re_match_group_def)
  show ?thesis
    using common_buildings_sorted_intersection[
        of "[''Timestamp'', ''Zoo CHW (kbtuh)'', ''Annex CHW (kbtuh)'', ''Library CHW (kbtuh)'']"
           "[''Timestamp'', ''Zoo MTHW (kbtuh)'', ''Library MTHW (kbtuh)'', ''Zoo MTHW (kbtuh)'']"
           "[''Library CHW (kbtuh)'', ''Timestamp'', ''Zoo CHW (kbtuh)'', ''Annex CHW (kbtuh)'']"
           "[''Timestamp'', ''Zoo MTHW (kbtuh)'', ''Library MTHW (kbtuh)'', ''Zoo MTHW (kbtuh)'']"]
      m v by simp
qed

lemma lazy_group_exact:
  assumes "CHR 0x0A \<notin> set u"
    and "\<forall>k < length u. \<not> prefix lit (drop k u @ lit)"
  shows "lazy_group lit grp (u @ lit) = Some (grp @ u)"
  using assms
proof (induction u arbitrary: grp)
  case Nil
  show ?case by (cases lit) simp_all
next
  case (Cons a u)
  have n: "\<not> prefix lit (a # u @ lit)"
    using Cons.prems(2) by fastforce
  have a: "a \<noteq> CHR 0x0A" and u: "CHR 0x0A \<notin> set u"
    using Cons.prems(1) by auto
  have r: "\<forall>k < length u. \<not> prefix lit (drop k u @ lit)"
  proof (intro allI impI)
    fix k assume "k < length u"
    then have "Suc k < length (a # u)" by simp
    then have "\<not> prefix lit (drop (Suc k) (a # u) @ lit)"
      using Cons.prems(2) by blast
    then show "\<not> prefix lit (drop k u @ lit)" by simp
  qed
  have "lazy_group lit grp ((a # u) @ lit) = lazy_group lit (grp @ [a]) (u @ lit)"
    using n a by simp
  also have "\<dots> = Some ((grp @ [a]) @ u)"
    using u r by (rule Cons.IH)
  finally show ?case by simp
qed

lemma no_early_match:
  assumes "lit = p @ [x]" and "x \<notin> set p" and "d \<noteq> []" and "prefix lit (d @ lit)"
  shows "prefix lit d"
proof (rule ccontr)
  assume n: "\<not> prefix lit d"
  from assms(4) n obtain us where l: "lit = d @ us" and p: "prefix us lit"
    by (auto simp: prefix_append)
  have ne: "us \<noteq> []"
    using l n by auto
  from p obtain w where w: "lit = us @ w" by (auto simp: prefix_def)
  have "length w = length d"
    using l w by (metis add_diff_cancel_right' length_append add.commute)
  then have wn: "w \<noteq> []" using assms(3) by auto
  have "us @ w = p @ [x]" using w assms(1) by simp
  then have "prefix us p"
    using wn by (metis append_butlast_last_id butlast_append butlast_snoc prefixI append_assoc)
  moreover have "last us = x"
    using l assms(1) ne by (metis last_appendR last_snoc)
  ultimately have "x \<in> set p"
    using ne by (metis last_in_set set_mono_prefix subsetD)
  with assms(2) show False by simp
qed

lemma regex_literal_no_paren: "regex_literal s \<Longrightarrow> CHR '')'' \<notin> set s"
  by (auto simp: regex_literal_def regex_special_def list_all_iff)

lemma re_match_group_exact:
  assumes "regex_literal s" and "b \<noteq> []" and "CHR 0x0A \<notin> set b"
    and "\<not> sublist (s @ '' (kbtuh)'') b"
  shows "re_match_group s (b @ '' '' @ s @ '' (kbtuh)'') = Some b"
proof -
  let ?lit = "'' '' @ s @ '' (kbtuh)''"
  obtain c u where b: "b = c # u" using assms(2) by (cases b) auto
  have lit: "?lit = ('' '' @ s @ '' (kbtuh'') @ [CHR '')'']" by simp
  have x: "CHR '')'' \<notin> set ('' '' @ s @ '' (kbtuh'')"
    using regex_literal_no_paren[OF assms(1)] by simp
  have e: "\<forall>k < length u. \<not> prefix ?lit (drop k u @ ?lit)"
  proof (intro allI impI notI)
    fix k assume k: "k < length u" and pr: "prefix ?lit (drop k u @ ?lit)"
    have "drop k u \<noteq> []" using k by simp
    then have "prefix ?lit (drop k u)"
      using no_early_match[OF lit x _ pr] by blast
    then obtain z where z: "drop k u = ?lit @ z" by (auto simp: prefix_def)
    have "u = take k u @ drop k u" by simp
    then have "b = (c # take k u @ '' '') @ (s @ '' (kbtuh)'') @ z"
      unfolding b z by simp
    then have "sublist (s @ '' (kbtuh)'') b"
      unfolding sublist_def by blast
    with assms(4) show False by simp
  qed
  have "re_match_group s (b @ ?lit) = lazy_group ?lit [c] (u @ ?lit)"
    using assms(3) by (auto simp: re_match_group_def b)
  also have "\<dots> = Some ([c] @ u)"
    using assms(3) e unfolding b by (intro lazy_group_exact) simp_all
  finally show ?thesis by (simp add: b)
qed

text \<open>
  Claim C10, as amended. For a suffix \<open>s\<close> without regular-expression special
  characters, and a building name \<open>b\<close> that is not empty, holds no line feed and does not
  contain \<open>s\<close> followed by \<^verbatim>\<open> (kbtuh)\<close>, the list holding the single column
  \<^verbatim>\<open>b s (kbtuh)\<close> yields exactly \<open>[b]\<close>.
\<close>

theorem column_name_roundtrip:
  assumes "regex_literal s" and "b \<noteq> []" and "CHR 0x0A \<notin> set b"
    and "\<not> sublist (s @ '' (kbtuh)'') b"
  shows "extract_building_names [b @ '' '' @ s @ '' (kbtuh)''] s = [b]"
  using re_match_group_exact[OF assms] by simp

text \<open>The two columns the script builds for the building \<^verbatim>\<open>North Hall\<close>.\<close>

theorem column_name_roundtrip_witness:
  "regex_literal ''CHW'' \<and> regex_literal ''MTHW'' \<and>
   \<not> sublist (''CHW'' @ '' (kbtuh)'') ''North Hall'' \<and>
   extract_building_names [chw_col ''North Hall''] ''CHW'' = [''North Hall''] \<and>
   extract_building_names [mthw_col ''North Hall''] ''MTHW'' = [''North Hall'']"
proof -
  have l: "regex_literal ''CHW''" "regex_literal ''MTHW''"
    by (simp_all add: regex_literal_def regex_special_def)
  have n: "''North Hall'' \<noteq> []" "CHR 0x0A \<notin> set ''North Hall''" by simp_all
  have s: "\<not> sublist (''CHW'' @ '' (kbtuh)'') ''North Hall''"
    "\<not> sublist (''MTHW'' @ '' (kbtuh)'') ''North Hall''"
    by code_simp+
  show ?thesis
    using column_name_roundtrip[OF l(1) n s(1)] column_name_roundtrip[OF l(2) n s(2)] l s(1)
    by (simp add: chw_col_def mthw_col_def)
qed

text \<open>
  Claim C10 as stated covers every building name. A name with a line feed in it (a header
  cell with a line break) contains no occurrence of the suffix, and its column is not
  matched at all, because \<^verbatim>\<open>.\<close> does not match a line feed; neither is the column of
  the empty name, because the group takes at least one character.
\<close>

theorem column_name_roundtrip_counterexample:
  "\<not> sublist (''CHW'' @ '' (kbtuh)'') [CHR ''A'', CHR 0x0A, CHR ''B''] \<and>
   extract_building_names [[CHR ''A'', CHR 0x0A, CHR ''B''] @ '' '' @ ''CHW'' @ '' (kbtuh)'']
     ''CHW'' = [] \<and>
   \<not> sublist (''CHW'' @ '' (kbtuh)'') [] \<and>
   extract_building_names [[] @ '' '' @ ''CHW'' @ '' (kbtuh)''] ''CHW'' = []"
proof -
  have "\<not> sublist (''CHW'' @ '' (kbtuh)'') [CHR ''A'', CHR 0x0A, CHR ''B'']"
    by code_simp
  moreover have "\<not> sublist (''CHW'' @ '' (kbtuh)'') []"
    by simp
  ultimately show ?thesis
    by (simp add: re_match_group_def)
qed

text \<open>
  Claim C5 says that a column is taken only when its whole label has the form
  \<^verbatim>\<open><name> <suffix> (kbtuh)\<close>. \<^verbatim>\<open>re.match\<close> anchors the pattern at the start of the
  label only, so a label with text after \<^verbatim>\<open>(kbtuh)\<close> is taken too. The script then
  looks for the column \<^verbatim>\<open>Library CHW (kbtuh)\<close>, which the sheet does not have, and the
  run ends with a KeyError.
\<close>

theorem trailing_text_is_matched:
  "extract_building_names [''Timestamp'', ''Library CHW (kbtuh) old''] ''CHW'' = [''Library''] \<and>
   snd (run_app trailing_workbook 0 700) = Raised (KeyError ''Library CHW (kbtuh)'')"
proof -
  have "extract_building_names [''Timestamp'', ''Library CHW (kbtuh) old''] ''CHW'' = [''Library'']"
    by (simp add: re_match_group_def)
  moreover have "snd (run_app trailing_workbook 0 700) = Raised (KeyError ''Library CHW (kbtuh)'')"
    by (simp add: run_app_def trailing_workbook_def CHW_SHEET_def MTHW_SHEET_def load_defs
        common_buildings_def re_match_group_def selectbox_def analyse_def join_building_def
        select_columns_def chw_col_def mthw_col_def Let_def)
  ultimately show ?thesis by simp
qed

subsection \<open>Runs of the script\<close>

lemma replace_char:
  "replace [a] [b] s = map (\<lambda>c. if c = a then b else c) s"
proof (induction s)
  case Nil
  show ?case by (subst replace.simps) simp
next
  case (Cons c cs)
  show ?case using Cons by (subst replace.simps) auto
qed

lemma out_file_eq:
  "out_file building =
     ''simultaneous_'' @ map (\<lambda>c. if c = CHR '' '' then CHR ''_'' else c) building @ ''.csv''"
  by (simp add: out_file_def replace_char)

lemma present_finished:
  assumes "columns simul_df = flag_columns"
  shows "\<exists>out. present building threshold df simul_df = (out, Finished) \<and>
           downloads out = [(to_csv simul_df, out_file building)]"
  using assms by (simp add: present_def select_columns_def flag_columns_def Let_def)

lemma present_outcome:
  "present building threshold df simul_df = (out, Finished) \<Longrightarrow>
   downloads out = [(to_csv simul_df, out_file building)]"
  by (auto simp: present_def Let_def split: sum.splits)

lemma downloads_append: "downloads (xs @ ys) = downloads xs @ downloads ys"
  by (induction xs rule: downloads.induct) simp_all

lemma run_app_Finished:
  assumes "run_app wb pick threshold = (out, Finished)"
  shows "\<exists>chw_df mthw_df building df simul_df.
           load_data wb = Inr (chw_df, mthw_df) \<and>
           selectbox (common_buildings (columns chw_df) (columns mthw_df)) pick = Some building \<and>
           analyse chw_df mthw_df building threshold = Inr (df, simul_df) \<and>
           downloads out = [(to_csv simul_df, out_file building)]"
proof -
  from assms obtain chw_df mthw_df where l: "load_data wb = Inr (chw_df, mthw_df)"
    by (cases "load_data wb") (auto simp: run_app_def)
  let ?common = "common_buildings (columns chw_df) (columns mthw_df)"
  from assms l obtain building where s: "selectbox ?common pick = Some building"
    by (cases "selectbox ?common pick") (auto simp: run_app_def Let_def)
  from assms l s have ne: "building \<noteq> []"
    by (auto simp: run_app_def Let_def split: if_splits)
  from assms l s ne obtain df simul_df where
    a: "analyse chw_df mthw_df building threshold = Inr (df, simul_df)"
    by (cases "analyse chw_df mthw_df building threshold") (auto simp: run_app_def Let_def)
  from assms l s ne a obtain out3 where
    p: "present building threshold df simul_df = (out3, Finished)"
    and o: "out = [Title ''Simultaneous Heating + Cooling Analyzer'',
                   Subheader ''Select Building'', Selectbox ''Choose a building:'' ?common,
                   Success (''Selected Building: **'' @ building @ ''**''),
                   Subheader ''Threshold Adjustment'',
                   NumberInput ''Enter the kBTU/h threshold for determining system 'on' status:'',
                   Info (''Using threshold: **'' @ str_int threshold @ '' kBTU/h**'')] @ out3"
    by (cases "present building threshold df simul_df") (auto simp: run_app_def Let_def)
  have "downloads out = [(to_csv simul_df, out_file building)]"
    unfolding o downloads_append using present_outcome[OF p] by simp
  with l s a show ?thesis by blast
qed

lemma run_app_reaches_end:
  assumes "load_data wb = Inr (chw_df, mthw_df)"
    and "selectbox (common_buildings (columns chw_df) (columns mthw_df)) pick = Some building"
    and "building \<noteq> []"
    and "analyse chw_df mthw_df building threshold = Inr (df, simul_df)"
  shows "snd (run_app wb pick threshold) = Finished"
proof -
  have "columns simul_df = flag_columns"
    using assms(4) by (simp add: analyse_iff)
  then obtain out where "present building threshold df simul_df = (out, Finished)"
    using present_finished by blast
  then show ?thesis
    using assms by (simp add: run_app_def Let_def)
qed

text \<open>
  Claim C2, as amended. A run that reaches the last line offers one download. Its file
  name is \<^verbatim>\<open>simultaneous_\<close>, the selected building with every space replaced by an
  underscore, and \<^verbatim>\<open>.csv\<close>. Its data is the CSV of the simultaneous subset: the header
  names all six columns of that frame, the three value columns and the three Boolean
  columns, and there is one line per row of the subset, with the six cells of the row.
\<close>

theorem download_csv:
  assumes "run_app wb pick threshold = (out, Finished)"
  shows "\<exists>chw_df mthw_df building df simul_df.
           load_data wb = Inr (chw_df, mthw_df) \<and>
           selectbox (common_buildings (columns chw_df) (columns mthw_df)) pick = Some building \<and>
           analyse chw_df mthw_df building threshold = Inr (df, simul_df) \<and>
           downloads out =
             [(to_csv simul_df,
               ''simultaneous_'' @ map (\<lambda>c. if c = CHR '' '' then CHR ''_'' else c) building
                 @ ''.csv'')] \<and>
           header (to_csv simul_df) =
             [''datetime'', ''CHW'', ''MTHW'', ''CHW_on'', ''MTHW_on'', ''simul''] \<and>
           body (to_csv simul_df) =
             map (\<lambda>r. [r ''datetime'', r ''CHW'', r ''MTHW'', r ''CHW_on'', r ''MTHW_on'',
                        r ''simul''])
                 (rows simul_df)"
proof -
  from run_app_Finished[OF assms] obtain chw_df mthw_df building df simul_df where
    l: "load_data wb = Inr (chw_df, mthw_df)" and
    s: "selectbox (common_buildings (columns chw_df) (columns mthw_df)) pick = Some building" and
    a: "analyse chw_df mthw_df building threshold = Inr (df, simul_df)" and
    d: "downloads out = [(to_csv simul_df, out_file building)]"
    by blast
  have c: "columns simul_df = [''datetime'', ''CHW'', ''MTHW'', ''CHW_on'', ''MTHW_on'', ''simul'']"
    using a by (simp add: analyse_iff flag_columns_def)
  have h: "header (to_csv simul_df) =
             [''datetime'', ''CHW'', ''MTHW'', ''CHW_on'', ''MTHW_on'', ''simul'']"
    by (simp add: to_csv_def c)
  have b: "body (to_csv simul_df) =
             map (\<lambda>r. [r ''datetime'', r ''CHW'', r ''MTHW'', r ''CHW_on'', r ''MTHW_on'',
                        r ''simul''])
                 (rows simul_df)"
    by (simp add: to_csv_def c)
  show ?thesis
    using l s a d[unfolded out_file_eq] h b by blast
qed

lemma ex_common: "common_buildings (columns ex_chw_df) (columns ex_mthw_df) = [''Library'', ''North Hall'']"
  by (simp add: common_buildings_def re_match_group_def ex_chw_df_def ex_mthw_df_def)

lemma ex_north_hall:
  "\<exists>df s. analyse ex_chw_df ex_mthw_df ''North Hall'' th = Inr (df, s)"
proof -
  have "has_columns ex_chw_df ex_mthw_df ''North Hall''"
    by (simp add: has_columns_def ex_chw_df_def ex_mthw_df_def chw_col_def mthw_col_def)
  moreover have "\<forall>r \<in> set (join_rows ex_chw_df ex_mthw_df ''North Hall'').
     comparable (r ''CHW'') \<and> comparable (r ''MTHW'')"
    by (simp add: join_rows_def ex_chw_df_def ex_mthw_df_def row_of_def pair_row_def
      chw_col_def mthw_col_def)
  ultimately show ?thesis by (simp add: analyse_iff)
qed

lemma ex_run_finished: "snd (run_app ex_workbook 1 700) = Finished"
proof -
  obtain df s where a: "analyse ex_chw_df ex_mthw_df ''North Hall'' 700 = Inr (df, s)"
    using ex_north_hall by blast
  have s: "selectbox (common_buildings (columns ex_chw_df) (columns ex_mthw_df)) 1
             = Some ''North Hall''"
    by (simp add: ex_common selectbox_def)
  show ?thesis
    using run_app_reaches_end[OF ex_loaded s _ a] by simp
qed

lemma ex_run_downloads:
  "map (\<lambda>d. (header (fst d), snd d)) (downloads (fst (run_app ex_workbook 1 700))) =
     [([''datetime'', ''CHW'', ''MTHW'', ''CHW_on'', ''MTHW_on'', ''simul''],
       ''simultaneous_North_Hall.csv'')]"
proof -
  have r: "run_app ex_workbook 1 700 = (fst (run_app ex_workbook 1 700), Finished)"
    using ex_run_finished by (simp add: prod_eq_iff)
  from run_app_Finished[OF r] obtain building df simul_df where
    s: "selectbox (common_buildings (columns ex_chw_df) (columns ex_mthw_df)) 1 = Some building" and
    a: "analyse ex_chw_df ex_mthw_df building 700 = Inr (df, simul_df)" and
    d: "downloads (fst (run_app ex_workbook 1 700)) = [(to_csv simul_df, out_file building)]"
    unfolding ex_loaded by auto
  have b: "building = ''North Hall''"
    using s by (simp add: ex_common selectbox_def)
  have "header (to_csv simul_df) = [''datetime'', ''CHW'', ''MTHW'', ''CHW_on'', ''MTHW_on'', ''simul'']"
    using a by (simp add: analyse_iff flag_columns_def to_csv_def)
  with d show ?thesis
    by (simp add: b out_file_eq)
qed

text \<open>The sample workbook with the second building selected.\<close>

theorem download_csv_witness:
  "snd (run_app ex_workbook 1 700) = Finished \<and>
   map snd (downloads (fst (run_app ex_workbook 1 700))) = [''simultaneous_North_Hall.csv'']"
proof -
  have r: "run_app ex_workbook 1 700 = (fst (run_app ex_workbook 1 700), Finished)"
    using ex_run_finished by (simp add: prod_eq_iff)
  from download_csv[OF r] obtain building where
    s: "selectbox (common_buildings (columns ex_chw_df) (columns ex_mthw_df)) 1 = Some building" and
    d: "map snd (downloads (fst (run_app ex_workbook 1 700))) =
          [''simultaneous_'' @ map (\<lambda>c. if c = CHR '' '' then CHR ''_'' else c) building @ ''.csv'']"
    unfolding ex_loaded by auto
  have b: "building = ''North Hall''"
    using s by (simp add: ex_common selectbox_def)
  show ?thesis
    using ex_run_finished d by (simp add: b)
qed

text \<open>
  Claim C2 as stated gives the CSV exactly the columns \<open>datetime\<close>, \<open>CHW\<close> and \<open>MTHW\<close>.
  The script passes the whole of \<open>simul_df\<close> to \<^verbatim>\<open>to_csv\<close>; only the table shown on the
  page is cut down to the three columns.
\<close>

theorem download_csv_counterexample:
  "map (\<lambda>d. header (fst d)) (downloads (fst (run_app ex_workbook 1 700))) =
     [[''datetime'', ''CHW'', ''MTHW'', ''CHW_on'', ''MTHW_on'', ''simul'']] \<and>
   map (\<lambda>d. header (fst d)) (downloads (fst (run_app ex_workbook 1 700))) \<noteq>
     [[''datetime'', ''CHW'', ''MTHW'']]"
proof -
  have "map (\<lambda>d. header (fst d)) (downloads (fst (run_app ex_workbook 1 700))) =
      map fst (map (\<lambda>d. (header (fst d), snd d)) (downloads (fst (run_app ex_workbook 1 700))))"
    by (simp add: comp_def)
  then show ?thesis
    unfolding ex_run_downloads by simp
qed

subsection \<open>No common building\<close>

text \<open>
  Claim C9, as amended. When no building name is extracted from both sheets, the run puts
  the title, the subheader of the selector and the selector with no options on the page
  and stops there (\<^verbatim>\<open>st.stop()\<close>): no join, filter, table, plot or download follows. It
  stops without writing any message.
\<close>

theorem stop_without_common_building:
  assumes "load_data wb = Inr (chw_df, mthw_df)"
    and "common_buildings (columns chw_df) (columns mthw_df) = []"
  shows "run_app wb pick threshold =
           ([Title ''Simultaneous Heating + Cooling Analyzer'',
             Subheader ''Select Building'',
             Selectbox ''Choose a building:'' []],
            Stopped)"
  using assms by (simp add: run_app_def selectbox_def)

lemma nocommon_loaded:
  "\<exists>c m. load_data nocommon_workbook = Inr (c, m) \<and>
         columns c = [''Timestamp'', ''Annex CHW (kbtuh)'', ''datetime''] \<and>
         columns m = [''Timestamp'', ''Library MTHW (kbtuh)'', ''datetime'']"
  by (simp add: nocommon_workbook_def CHW_SHEET_def MTHW_SHEET_def load_defs)

lemma nocommon_common:
  "common_buildings [''Timestamp'', ''Annex CHW (kbtuh)'', ''datetime'']
     [''Timestamp'', ''Library MTHW (kbtuh)'', ''datetime''] = []"
  by (simp add: common_buildings_def re_match_group_def)

theorem stop_without_common_building_witness:
  "snd (run_app nocommon_workbook 0 700) = Stopped \<and>
   downloads (fst (run_app nocommon_workbook 0 700)) = []"
proof -
  obtain c m where l: "load_data nocommon_workbook = Inr (c, m)"
    and c: "columns c = [''Timestamp'', ''Annex CHW (kbtuh)'', ''datetime'']"
    and m: "columns m = [''Timestamp'', ''Library MTHW (kbtuh)'', ''datetime'']"
    using nocommon_loaded by blast
  have e: "common_buildings (columns c) (columns m) = []"
    unfolding c m by (rule nocommon_common)
  show ?thesis
    unfolding stop_without_common_building[OF l e] by simp
qed

text \<open>
  Claim C9 as stated has the run stop with an explanatory message. The run on a workbook
  whose sheets share no building: the page holds the title, the subheader and the empty
  selector, and no message.
\<close>

theorem stop_without_common_building_counterexample:
  "run_app nocommon_workbook 0 700 =
     ([Title ''Simultaneous Heating + Cooling Analyzer'',
       Subheader ''Select Building'',
       Selectbox ''Choose a building:'' []],
      Stopped) \<and>
   \<not> list_ex is_message (fst (run_app nocommon_workbook 0 700))"
proof -
  have "run_app nocommon_workbook 0 700 =
     ([Title ''Simultaneous Heating + Cooling Analyzer'',
       Subheader ''Select Building'',
       Selectbox ''Choose a building:'' []],
      Stopped)"
    by (simp add: run_app_def nocommon_workbook_def CHW_SHEET_def MTHW_SHEET_def load_defs
        common_buildings_def re_match_group_def selectbox_def)
  then show ?thesis by simp
qed

end
